theory Spec2Isabelle
  imports Complex_Main "HOL-Library.Log_Nat"
begin

section \<open>JavaScript values\<close>

text \<open>
  The tools of \<^verbatim>\<open>tools.js\<close> receive JSON from two sides: the arguments of a tool call and
  the body of the HTTP response of the node.  A JSON value is a \<^verbatim>\<open>null\<close>, a boolean, a
  number, a string, an array or an object.  JavaScript numbers are IEEE-754 doubles; a
  finite double is a rational number, so \<open>JNum\<close> carries a \<^typ>\<open>rat\<close> (the sign of zero is
  not modelled: no output of this program depends on it; a number literal too large
  for a double, which is read as an infinity, is outside this type).  Strings are lists of
  characters; a \<^typ>\<open>char\<close> stands for a code unit below 256.  An object is the list of its
  properties in order; a property is looked up by its key.  JavaScript's
  \<^verbatim>\<open>undefined\<close> is \<open>None\<close> of \<open>json option\<close>.
\<close>

datatype json =
    JNull
  | JBool bool
  | JNum rat
  | JStr string
  | JArr "json list"
  | JObj "(string \<times> json) list"

text \<open>The values of type Number that the program computes with.\<close>

datatype jsnum = NaN | PosInf | NegInf | Fin rat

subsection \<open>Rounding to a double\<close>

definition pow2 :: "int \<Rightarrow> rat" where
  "pow2 e = (if 0 \<le> e then 2 ^ nat e else 1 / 2 ^ nat (- e))"

definition pow10 :: "int \<Rightarrow> rat" where
  "pow10 e = (if 0 \<le> e then 10 ^ nat e else 1 / 10 ^ nat (- e))"

text \<open>\<open>ilog b q\<close> is the exponent \<open>e\<close> with \<open>b ^ e \<le> q < b ^ (e + 1)\<close>, for \<open>0 < q\<close>.\<close>

definition ilog :: "nat \<Rightarrow> rat \<Rightarrow> int" where
  "ilog b q = (if 1 \<le> q then int (floorlog b (nat \<lfloor>q\<rfloor>)) - 1
               else - int (floorlog b (nat (\<lceil>1 / q\<rceil> - 1))))"

definition round_half_even :: "rat \<Rightarrow> int" where
  "round_half_even r =
     (let f = \<lfloor>r\<rfloor>; d = r - of_int f in
      if d < 1 / 2 then f else if 1 / 2 < d then f + 1
      else if even f then f else f + 1)"

text \<open>
  The Number value for a rational: the nearest double, ties to the even significand
  (53 bits, least exponent \<open>-1074\<close>), and an infinity from \<open>2 ^ 1024\<close> on.
\<close>

definition round_double :: "rat \<Rightarrow> jsnum" where
  "round_double q =
     (if q = 0 then Fin 0
      else
        let a = \<bar>q\<bar>;
            p = max (ilog 2 a - 52) (- 1074);
            r = of_int (round_half_even (a / pow2 p)) * pow2 p
        in if 2 ^ 1024 \<le> r then (if 0 < q then PosInf else NegInf)
           else Fin (if 0 < q then r else - r))"

subsection \<open>Digits\<close>

definition digit_char :: "nat \<Rightarrow> char" where
  "digit_char d = char_of (48 + d)"

fun dec :: "nat \<Rightarrow> string" where
  "dec n = (if n < 10 then [digit_char n] else dec (n div 10) @ [digit_char (n mod 10)])"

declare dec.simps [simp del]

subsection \<open>Number to string\<close>

text \<open>
  \<^verbatim>\<open>Number::toString\<close> of ECMAScript for a positive finite \<open>x\<close>: integers \<open>n\<close>, \<open>k\<close>,
  \<open>s\<close> with \<open>10 ^ (k - 1) \<le> s < 10 ^ k\<close>, the Number value of \<open>s * 10 ^ (n - k)\<close> being
  \<open>x\<close>, and \<open>k\<close> as small as possible; of several \<open>s\<close> the one nearest to \<open>x\<close>.
  For a given \<open>k\<close> only the two multiples of \<open>10 ^ (n - k)\<close> around \<open>x\<close> can qualify.
\<close>

definition digits_cand :: "rat \<Rightarrow> int \<Rightarrow> nat \<Rightarrow> nat option" where
  "digits_cand x n k =
     (let sc = pow10 (n - int k);
          c = nat \<lfloor>x / sc\<rfloor>;
          lo = (round_double (of_nat c * sc) = Fin x);
          hi = (round_double (of_nat (c + 1) * sc) = Fin x)
      in if lo \<and> hi then
           (let dl = x - of_nat c * sc; dh = of_nat (c + 1) * sc - x in
            if dl < dh then Some c else if dh < dl then Some (c + 1)
            else if even c then Some c else Some (c + 1))
         else if lo then Some c
         else if hi then Some (c + 1)
         else None)"

fun shortest :: "rat \<Rightarrow> int \<Rightarrow> nat \<Rightarrow> nat \<Rightarrow> (nat \<times> nat) option" where
  "shortest x n k 0 = None"
| "shortest x n k (Suc fuel) =
     (case digits_cand x n k of
        Some s \<Rightarrow> Some (s, k)
      | None \<Rightarrow> shortest x n (k + 1) fuel)"

definition format_number :: "nat \<Rightarrow> nat \<Rightarrow> int \<Rightarrow> string" where
  "format_number s k n =
     (let ds = dec s in
      if int k \<le> n \<and> n \<le> 21 then ds @ replicate (nat (n - int k)) (CHR ''0'')
      else if 0 < n \<and> n \<le> 21 then take (nat n) ds @ ''.'' @ drop (nat n) ds
      else if - 6 < n \<and> n \<le> 0 then ''0.'' @ replicate (nat (- n)) (CHR ''0'') @ ds
      else
        let e = n - 1;
            es = (if 0 \<le> e then ''+'' else ''-'') @ dec (nat \<bar>e\<bar>)
        in if k = 1 then ds @ ''e'' @ es
           else take 1 ds @ ''.'' @ drop 1 ds @ ''e'' @ es)"

text \<open>
  Seventeen significant digits identify a double, so for a double the search below
  succeeds; the last case only makes the function total on rationals that are not doubles.
\<close>

definition pos_toString :: "rat \<Rightarrow> string" where
  "pos_toString x =
     (let n = ilog 10 x + 1 in
      case shortest x n 1 17 of
        Some (c, k) \<Rightarrow>
          if c = 10 ^ k then format_number (10 ^ (k - 1)) k (n + 1)
          else format_number c k n
      | None \<Rightarrow> format_number (nat \<lfloor>x / pow10 (n - 17)\<rfloor>) 17 n)"

fun Number_toString :: "jsnum \<Rightarrow> string" where
  "Number_toString NaN = ''NaN''"
| "Number_toString PosInf = ''Infinity''"
| "Number_toString NegInf = ''-Infinity''"
| "Number_toString (Fin x) =
     (if x = 0 then ''0''
      else if x < 0 then ''-'' @ pos_toString (- x)
      else pos_toString x)"

text \<open>
  \<^verbatim>\<open>Number.prototype.toFixed(f)\<close>: a value that is not finite, or is at least \<open>10 ^ 21\<close>,
  is printed as by \<open>Number_toString\<close>; otherwise the integer \<open>n\<close> with \<open>n / 10 ^ f\<close>
  nearest to the value (the larger of two) is printed with \<open>f\<close> digits after the point.
\<close>

definition toFixed_pos :: "rat \<Rightarrow> nat \<Rightarrow> string" where
  "toFixed_pos x f =
     (if 10 ^ 21 \<le> x then pos_toString x
      else
        let n = nat \<lfloor>x * 10 ^ f + 1 / 2\<rfloor>;
            m = dec n
        in if f = 0 then m
           else
             let m' = (if length m \<le> f then replicate (f + 1 - length m) (CHR ''0'') @ m else m);
                 k = length m'
             in take (k - f) m' @ ''.'' @ drop (k - f) m')"

fun toFixed :: "jsnum \<Rightarrow> nat \<Rightarrow> string" where
  "toFixed (Fin x) f = (if x < 0 then ''-'' @ toFixed_pos (- x) f else toFixed_pos x f)"
| "toFixed v f = Number_toString v"

text \<open>Division of a Number by a positive finite constant.\<close>

fun js_div :: "jsnum \<Rightarrow> rat \<Rightarrow> jsnum" where
  "js_div (Fin x) d = round_double (x / d)"
| "js_div v d = v"

subsection \<open>Errors\<close>

text \<open>
  An exception is a value: an operation that may throw returns \<open>Inl\<close> of the error it
  throws, or \<open>Inr\<close> of the value it returns.  Of an error only its \<^verbatim>\<open>message\<close> is
  ever read.
\<close>

datatype js_error = Error string | TypeError string | AxiosError string

fun message :: "js_error \<Rightarrow> string" where
  "message (Error m) = m"
| "message (TypeError m) = m"
| "message (AxiosError m) = m"

definition and_then :: "js_error + 'a \<Rightarrow> ('a \<Rightarrow> js_error + 'b) \<Rightarrow> js_error + 'b" where
  "and_then r f = (case r of Inl e \<Rightarrow> Inl e | Inr v \<Rightarrow> f v)"

definition try_catch :: "js_error + 'a \<Rightarrow> (js_error \<Rightarrow> 'a) \<Rightarrow> 'a" where
  "try_catch r h = (case r of Inl e \<Rightarrow> h e | Inr v \<Rightarrow> v)"

text \<open>The results of a list of operations run from left to right; the first error ends the run.\<close>

fun collect :: "(js_error + 'a) list \<Rightarrow> js_error + 'a list" where
  "collect [] = Inr []"
| "collect (r # rs) =
     (case r of
        Inl e \<Rightarrow> Inl e
      | Inr v \<Rightarrow> (case collect rs of Inl e \<Rightarrow> Inl e | Inr vs \<Rightarrow> Inr (v # vs)))"

subsection \<open>Conversions of values\<close>

fun join :: "string \<Rightarrow> string list \<Rightarrow> string" where
  "join sep [] = []"
| "join sep [x] = x"
| "join sep (x # y # ys) = x @ sep @ join sep (y # ys)"

text \<open>
  \<^verbatim>\<open>ToString\<close>, as a template literal and \<^verbatim>\<open>parseInt\<close> apply it.  An array is joined
  with commas, a \<^verbatim>\<open>null\<close> element printing as the empty string.  An object is printed by
  the method \<^verbatim>\<open>toString\<close> it inherits, as \<^verbatim>\<open>[object Object]\<close>; when the object has a
  member \<^verbatim>\<open>toString\<close> of its own, that member (a JSON value, so not a function) hides
  the method, \<^verbatim>\<open>valueOf\<close> gives no primitive either, and the conversion throws a
  \<^verbatim>\<open>TypeError\<close>.  An array that holds such an object throws in the same way.
\<close>

fun json_toString :: "json \<Rightarrow> js_error + string" where
  "json_toString JNull = Inr ''null''"
| "json_toString (JBool b) = Inr (if b then ''true'' else ''false'')"
| "json_toString (JNum q) = Inr (Number_toString (Fin q))"
| "json_toString (JStr s) = Inr s"
| "json_toString (JArr xs) =
     (case collect (map (\<lambda>x. case x of JNull \<Rightarrow> Inr [] | _ \<Rightarrow> json_toString x) xs) of
        Inl e \<Rightarrow> Inl e
      | Inr ss \<Rightarrow> Inr (join '','' ss))"
| "json_toString (JObj kvs) =
     (if map_of kvs ''toString'' \<noteq> None
      then Inl (TypeError ''Cannot convert object to primitive value'')
      else Inr ''[object Object]'')"

fun ToString :: "json option \<Rightarrow> js_error + string" where
  "ToString None = Inr ''undefined''"
| "ToString (Some v) = json_toString v"

text \<open>
  A template literal: the pieces are converted from left to right and concatenated; a
  piece that throws ends the evaluation.
\<close>

definition lit :: "string \<Rightarrow> js_error + string" where
  "lit s = Inr s"

definition template :: "(js_error + string) list \<Rightarrow> js_error + string" where
  "template pieces = (case collect pieces of Inl e \<Rightarrow> Inl e | Inr ss \<Rightarrow> Inr (concat ss))"

text \<open>Truthiness, as the \<^verbatim>\<open>if\<close> statement tests it.\<close>

fun truthy :: "json option \<Rightarrow> bool" where
  "truthy None = False"
| "truthy (Some JNull) = False"
| "truthy (Some (JBool b)) = b"
| "truthy (Some (JNum q)) = (q \<noteq> 0)"
| "truthy (Some (JStr s)) = (s \<noteq> [])"
| "truthy (Some (JArr xs)) = True"
| "truthy (Some (JObj kvs)) = True"

text \<open>
  Reading a property named \<^verbatim>\<open>error\<close>, \<^verbatim>\<open>message\<close> or \<^verbatim>\<open>result\<close> of a value other
  than \<^verbatim>\<open>null\<close>: an object has it when it has the key, any other value has not.
\<close>

fun get_prop :: "json \<Rightarrow> string \<Rightarrow> json option" where
  "get_prop (JObj kvs) key = map_of kvs key"
| "get_prop v key = None"

subsection \<open>parseInt\<close>

definition is_hex_char :: "char \<Rightarrow> bool" where
  "is_hex_char c = (c \<in> set ''0123456789abcdefABCDEF'')"

definition hex_digit :: "char \<Rightarrow> nat" where
  "hex_digit c =
     (let n = of_char c in
      if n \<le> (57::nat) then n - 48 else if n \<le> 70 then n - 55 else n - 87)"

definition hex_value :: "string \<Rightarrow> nat" where
  "hex_value Z = foldl (\<lambda>a c. 16 * a + hex_digit c) 0 Z"

definition is_js_space :: "char \<Rightarrow> bool" where
  "is_js_space c = (of_char c \<in> {9, 10, 11, 12, 13, 32, 160 :: nat})"

text \<open>
  \<^verbatim>\<open>parseInt(string, 16)\<close>: leading white space and a sign are skipped, then a prefix
  \<^verbatim>\<open>0x\<close> or \<^verbatim>\<open>0X\<close>; the longest run of hexadecimal digits that follows is read.  No
  digit gives \<^verbatim>\<open>NaN\<close>; otherwise the result is the Number value of the integer read.
\<close>

definition parseInt16_string :: "string \<Rightarrow> jsnum" where
  "parseInt16_string inputString =
     (let S = dropWhile is_js_space inputString;
          neg = (take 1 S = ''-'');
          S1 = (if take 1 S = ''+'' \<or> take 1 S = ''-'' then drop 1 S else S);
          S2 = (if take 2 S1 = ''0x'' \<or> take 2 S1 = ''0X'' then drop 2 S1 else S1);
          Z = takeWhile is_hex_char S2
      in if Z = [] then NaN
         else
           let mathInt = hex_value Z in
           if mathInt = 0 then Fin 0
           else round_double (if neg then - of_nat mathInt else of_nat mathInt))"

text \<open>The argument is converted to a string first, which may throw.\<close>

definition parseInt16 :: "json option \<Rightarrow> js_error + jsnum" where
  "parseInt16 string =
     and_then (ToString string) (\<lambda>inputString. Inr (parseInt16_string inputString))"

section \<open>JSON.stringify\<close>

text \<open>
  \<^verbatim>\<open>JSON.stringify(value, null, 2)\<close>.  A string is quoted, with the two-character escapes
  for backspace, tab, line feed, form feed, carriage return, the quote and the backslash,
  and a \<^verbatim>\<open>u00XX\<close> escape for any other character below the space.  An empty array or object has
  no inner line breaks; otherwise every element is put on a line of its own, two spaces
  deeper than the line of its bracket.  The argument \<open>ind\<close> is the indentation of the
  line that holds the value.
\<close>

definition hex_char :: "nat \<Rightarrow> char" where
  "hex_char d = (if d < 10 then char_of (48 + d) else char_of (87 + d))"

definition quote_char :: "char \<Rightarrow> string" where
  "quote_char c =
     (let n = (of_char c :: nat) in
      if n = 8 then [CHR 0x5C, CHR ''b'']
      else if n = 9 then [CHR 0x5C, CHR ''t'']
      else if n = 10 then [CHR 0x5C, CHR ''n'']
      else if n = 12 then [CHR 0x5C, CHR ''f'']
      else if n = 13 then [CHR 0x5C, CHR ''r'']
      else if n = 34 then [CHR 0x5C, CHR 0x22]
      else if n = 92 then [CHR 0x5C, CHR 0x5C]
      else if n < 32 then [CHR 0x5C] @ ''u00'' @ [hex_char (n div 16), hex_char (n mod 16)]
      else [c])"

definition QuoteJSONString :: "string \<Rightarrow> string" where
  "QuoteJSONString s = [CHR 0x22] @ concat (map quote_char s) @ [CHR 0x22]"

definition newline :: string where
  "newline = [CHR 0x0A]"

fun stringify :: "string \<Rightarrow> json \<Rightarrow> string" where
  "stringify ind JNull = ''null''"
| "stringify ind (JBool b) = (if b then ''true'' else ''false'')"
| "stringify ind (JNum q) = Number_toString (Fin q)"
| "stringify ind (JStr s) = QuoteJSONString s"
| "stringify ind (JArr xs) =
     (if xs = [] then ''[]''
      else ''['' @ newline @ ind @ ''  ''
        @ join ('','' @ newline @ ind @ ''  '') (map (stringify (ind @ ''  '')) xs)
        @ newline @ ind @ '']'')"
| "stringify ind (JObj kvs) =
     (if kvs = [] then ''{}''
      else ''{'' @ newline @ ind @ ''  ''
        @ join ('','' @ newline @ ind @ ''  '')
            (map (\<lambda>(k, v). QuoteJSONString k @ '': '' @ stringify (ind @ ''  '') v) kvs)
        @ newline @ ind @ ''}'')"

text \<open>\<^verbatim>\<open>JSON.stringify(undefined, null, 2)\<close> is \<^verbatim>\<open>undefined\<close>, not a string.\<close>

fun JSON_stringify :: "json option \<Rightarrow> string option" where
  "JSON_stringify None = None"
| "JSON_stringify (Some v) = Some (stringify [] v)"

section \<open>The RPC client\<close>

text \<open>The body of the POST, as it is serialised: the four members of the envelope
  (the member \<^verbatim>\<open>method\<close> is the field \<open>rpc_method\<close>).\<close>

record rpc_request =
  jsonrpc :: string  id :: int  rpc_method :: string  params :: "json list"

text \<open>
  \<^verbatim>\<open>axios.post\<close> either rejects (no connection, a time-out, a status outside 2xx) or
  resolves with the parsed body as \<^verbatim>\<open>response.data\<close>.  The network is a function from the
  URL and the body of a request to that outcome; the list of the requests posted is
  returned beside the result of every operation, in the order they were sent.
\<close>

datatype http_outcome = Rejects js_error | Resolves json

type_synonym network = "string \<Rightarrow> rpc_request \<Rightarrow> http_outcome"

type_synonym posts = "(string \<times> rpc_request) list"

definition DEFAULT_RPC_URL :: string where
  "DEFAULT_RPC_URL = ''https://api-testnet.shardeum.org/''"

text \<open>
  The \<^verbatim>\<open>catch\<close> of \<^verbatim>\<open>makeRpcCall\<close> writes a line to the standard error stream and throws
  the error again; the stream is not part of the model.  Reading \<^verbatim>\<open>response.data.error\<close>
  when the body is \<^verbatim>\<open>null\<close> throws a \<^verbatim>\<open>TypeError\<close>, and so does the template
  literal of the message when the \<^verbatim>\<open>message\<close> of the remote error has no string form.
\<close>

definition makeRpcCall ::
  "network \<Rightarrow> string \<Rightarrow> json list option \<Rightarrow> string option \<Rightarrow> (js_error + json option) \<times> posts" where
  "makeRpcCall net method' params_arg rpcUrl_arg =
     (let params' = (case params_arg of None \<Rightarrow> [] | Some ps \<Rightarrow> ps);
          rpcUrl = (case rpcUrl_arg of None \<Rightarrow> DEFAULT_RPC_URL | Some u \<Rightarrow> u);
          request = \<lparr>jsonrpc = ''2.0'', id = 1, rpc_method = method', params = params'\<rparr>
      in (case net rpcUrl request of
            Rejects error \<Rightarrow> Inl error
          | Resolves data \<Rightarrow>
              (if data = JNull
               then Inl (TypeError ''Cannot read properties of null (reading 'error')'')
               else if truthy (get_prop data ''error'')
               then and_then
                      (template [lit ''RPC Error: '',
                         ToString (get_prop (the (get_prop data ''error'')) ''message'')])
                      (\<lambda>msg. Inl (Error msg))
               else Inr (get_prop data ''result'')),
          [(rpcUrl, request)]))"

section \<open>Argument schemas\<close>

text \<open>The three regular expressions of the schemas; all are anchored at both ends.\<close>

datatype pattern =
    Address40   \<comment> \<open>\<^verbatim>\<open>/^0x[a-fA-F0-9]{40}$/\<close>\<close>
  | Hash64      \<comment> \<open>\<^verbatim>\<open>/^0x[a-fA-F0-9]{64}$/\<close>\<close>
  | HexQuantity \<comment> \<open>\<^verbatim>\<open>/^0x[a-fA-F0-9]+$/\<close>\<close>

fun regex_test :: "pattern \<Rightarrow> string \<Rightarrow> bool" where
  "regex_test Address40 s =
     (take 2 s = ''0x'' \<and> length (drop 2 s) = 40 \<and> list_all is_hex_char (drop 2 s))"
| "regex_test Hash64 s =
     (take 2 s = ''0x'' \<and> length (drop 2 s) = 64 \<and> list_all is_hex_char (drop 2 s))"
| "regex_test HexQuantity s =
     (take 2 s = ''0x'' \<and> 1 \<le> length (drop 2 s) \<and> list_all is_hex_char (drop 2 s))"

text \<open>
  The schema of a field, built as the source chains it:
  \<^verbatim>\<open>z.string().regex(r).optional().default(d).describe(t)\<close> is
  \<open>Describe (Default (Optional (Regex ZString r)) d) t\<close>.
\<close>

datatype zod =
    ZString
  | ZNumber
  | ZBoolean
  | Regex zod pattern
  | Optional zod
  | Default zod json
  | Describe zod string

text \<open>
  Parsing a field: the outer \<open>None\<close> is a failed validation, \<open>Some None\<close> an accepted
  \<^verbatim>\<open>undefined\<close>.  A default replaces an \<^verbatim>\<open>undefined\<close> input before the inner schema is
  applied.
\<close>

fun zparse :: "zod \<Rightarrow> json option \<Rightarrow> json option option" where
  "zparse ZString v = (case v of Some (JStr s) \<Rightarrow> Some v | _ \<Rightarrow> None)"
| "zparse ZNumber v = (case v of Some (JNum q) \<Rightarrow> Some v | _ \<Rightarrow> None)"
| "zparse ZBoolean v = (case v of Some (JBool b) \<Rightarrow> Some v | _ \<Rightarrow> None)"
| "zparse (Regex z r) v =
     (case zparse z v of
        Some (Some (JStr s)) \<Rightarrow> if regex_test r s then Some (Some (JStr s)) else None
      | _ \<Rightarrow> None)"
| "zparse (Optional z) v = (case v of None \<Rightarrow> Some None | Some x \<Rightarrow> zparse z v)"
| "zparse (Default z d) v = (case v of None \<Rightarrow> zparse z (Some d) | Some x \<Rightarrow> zparse z v)"
| "zparse (Describe z t) v = zparse z v"

text \<open>
  The arguments of a call are an object, read as a map from its keys.  Every field of
  the shape is parsed; one failure fails the call.  Keys outside the shape are dropped.
\<close>

type_synonym args = "string \<rightharpoonup> json"

fun parse_shape :: "(string \<times> zod) list \<Rightarrow> args \<Rightarrow> args option" where
  "parse_shape [] raw = Some Map.empty"
| "parse_shape ((key, z) # shape) raw =
     (case zparse z (raw key) of
        None \<Rightarrow> None
      | Some v \<Rightarrow>
          (case parse_shape shape raw of
             None \<Rightarrow> None
           | Some parsed \<Rightarrow> Some (parsed(key := v))))"

section \<open>Tools\<close>

text \<open>
  The result of a tool: text segments and the error flag (absent in the source where it
  is \<open>False\<close> here).  The text of a segment is what the source computes for it, which for
  \<^verbatim>\<open>JSON.stringify\<close> may be \<^verbatim>\<open>undefined\<close>.
\<close>

record content_item =
  type :: string
  text' :: "string option"

record tool_result =
  content :: "content_item list"
  isError :: bool

definition success :: "string option \<Rightarrow> tool_result" where
  "success t = \<lparr>content = [\<lparr>type = ''text'', text' = t\<rparr>], isError = False\<rparr>"

definition failure :: "string \<Rightarrow> tool_result" where
  "failure t = \<lparr>content = [\<lparr>type = ''text'', text' = Some t\<rparr>], isError = True\<rparr>"

text \<open>
  Values as the body of the request shows them: an \<^verbatim>\<open>undefined\<close> element of an array is
  serialised as \<^verbatim>\<open>null\<close>, an \<^verbatim>\<open>undefined\<close> property of an object is left out.
\<close>

definition arr :: "json option list \<Rightarrow> json list" where
  "arr xs = map (\<lambda>x. case x of None \<Rightarrow> JNull | Some v \<Rightarrow> v) xs"

definition obj :: "(string \<times> json option) list \<Rightarrow> json" where
  "obj kvs = JObj (concat (map (\<lambda>(k, x). case x of None \<Rightarrow> [] | Some v \<Rightarrow> [(k, v)]) kvs))"

type_synonym handler = "network \<Rightarrow> string \<Rightarrow> args \<Rightarrow> tool_result \<times> posts"

text \<open>
  Every handler has the same shape.  The request is made; then, inside the
  \<^verbatim>\<open>try\<close>, the value it returned is formatted, which for a number parses it and
  evaluates a template literal; whatever is thrown on the way (by the client, by
  \<^verbatim>\<open>parseInt\<close>, by the template literal) is turned into a failure by the
  \<^verbatim>\<open>catch\<close>.  The line that each handler writes to the standard error stream before
  the request is not part of the model; what it interpolates are arguments that passed
  the schema, which are strings.
\<close>

definition eth_getBalance_handler :: handler where
  "eth_getBalance_handler net rpcUrl args =
     (case makeRpcCall net ''eth_getBalance''
             (Some (arr [args ''address'', args ''blockParameter''])) (Some rpcUrl) of
        (called, sent) \<Rightarrow>
          (try_catch
             (and_then called (\<lambda>balance.
              and_then (parseInt16 balance) (\<lambda>balanceWei.
              let balanceEth = js_div balanceWei (10 ^ 18) in
              and_then (template
                [lit ''Balance for '', ToString (args ''address''), lit '' at block '',
                 ToString (args ''blockParameter''), lit ('':'' @ newline @ ''- Wei: ''),
                 lit (Number_toString balanceWei), lit (newline @ ''- ETH: ''),
                 lit (toFixed balanceEth 4)])
                (\<lambda>t. Inr (success (Some t))))))
             (\<lambda>error. failure (''Error: Failed to get balance. '' @ message error)),
           sent))"

definition eth_blockNumber_handler :: handler where
  "eth_blockNumber_handler net rpcUrl args =
     (case makeRpcCall net ''eth_blockNumber''
             (Some ([])) (Some rpcUrl) of
        (called, sent) \<Rightarrow>
          (try_catch
             (and_then called (\<lambda>blockNumber.
              and_then (parseInt16 blockNumber) (\<lambda>blockNumberDecimal.
              and_then (template
                [lit ''Current Block Number: '', lit (Number_toString blockNumberDecimal),
                 lit '' ('', ToString blockNumber, lit '')''])
                (\<lambda>t. Inr (success (Some t))))))
             (\<lambda>error. failure (''Error: Failed to get block number. '' @ message error)),
           sent))"

definition eth_getTransactionCount_handler :: handler where
  "eth_getTransactionCount_handler net rpcUrl args =
     (case makeRpcCall net ''eth_getTransactionCount''
             (Some (arr [args ''address'', args ''blockParameter''])) (Some rpcUrl) of
        (called, sent) \<Rightarrow>
          (try_catch
             (and_then called (\<lambda>txCount.
              and_then (parseInt16 txCount) (\<lambda>txCountDecimal.
              and_then (template
                [lit ''Transaction Count for '', ToString (args ''address''), lit '' at '',
                 ToString (args ''blockParameter''), lit '' block: '',
                 lit (Number_toString txCountDecimal), lit '' ('', ToString txCount, lit '')''])
                (\<lambda>t. Inr (success (Some t))))))
             (\<lambda>error. failure (''Error: Failed to get transaction count. '' @ message error)),
           sent))"

definition eth_getBlockTransactionCountByHash_handler :: handler where
  "eth_getBlockTransactionCountByHash_handler net rpcUrl args =
     (case makeRpcCall net ''eth_getBlockTransactionCountByHash''
             (Some (arr [args ''blockHash''])) (Some rpcUrl) of
        (called, sent) \<Rightarrow>
          (try_catch
             (and_then called (\<lambda>txCount.
              and_then (parseInt16 txCount) (\<lambda>txCountDecimal.
              and_then (template
                [lit ''Transaction Count for Block Hash '', ToString (args ''blockHash''), lit '': '',
                 lit (Number_toString txCountDecimal), lit '' ('', ToString txCount, lit '')''])
                (\<lambda>t. Inr (success (Some t))))))
             (\<lambda>error. failure (''Error: Failed to get block transaction count. '' @ message error)),
           sent))"

definition eth_getBlockTransactionCountByNumber_handler :: handler where
  "eth_getBlockTransactionCountByNumber_handler net rpcUrl args =
     (case makeRpcCall net ''eth_getBlockTransactionCountByNumber''
             (Some (arr [args ''blockNumber''])) (Some rpcUrl) of
        (called, sent) \<Rightarrow>
          (try_catch
             (and_then called (\<lambda>txCount.
              and_then (parseInt16 txCount) (\<lambda>txCountDecimal.
              and_then (template
                [lit ''Transaction Count for Block Number '', ToString (args ''blockNumber''),
                 lit '': '', lit (Number_toString txCountDecimal), lit '' ('', ToString txCount,
                 lit '')''])
                (\<lambda>t. Inr (success (Some t))))))
             (\<lambda>error. failure (''Error: Failed to get block transaction count. '' @ message error)),
           sent))"

text \<open>
  \<^verbatim>\<open>eth_estimateGas\<close> copies into the transaction object the fields that are truthy: an
  empty string is left out like an absent one.
\<close>

definition eth_estimateGas_handler :: handler where
  "eth_estimateGas_handler net rpcUrl args =
     (let params' = obj
            [(''from'', if truthy (args ''from'') then args ''from'' else None),
             (''to'', if truthy (args ''to'') then args ''to'' else None),
             (''value'', if truthy (args ''value'') then args ''value'' else None),
             (''data'', if truthy (args ''data'') then args ''data'' else None)]
      in case makeRpcCall net ''eth_estimateGas''
             (Some ([params'])) (Some rpcUrl) of
        (called, sent) \<Rightarrow>
          (try_catch
             (and_then called (\<lambda>gasEstimate.
              and_then (parseInt16 gasEstimate) (\<lambda>gasEstimateDecimal.
              and_then (template
                [lit ''Estimated Gas Required: '', lit (Number_toString gasEstimateDecimal),
                 lit '' ('', ToString gasEstimate, lit '')''])
                (\<lambda>t. Inr (success (Some t))))))
             (\<lambda>error. failure (''Error: Failed to estimate gas. '' @ message error)),
           sent))"

definition eth_getBlockByHash_handler :: handler where
  "eth_getBlockByHash_handler net rpcUrl args =
     (case makeRpcCall net ''eth_getBlockByHash''
             (Some (arr [args ''blockHash'', args ''fullTransactions''])) (Some rpcUrl) of
        (called, sent) \<Rightarrow>
          (try_catch
             (and_then called (\<lambda>blockData.
              Inr (success (JSON_stringify blockData))))
             (\<lambda>error. failure (''Error: Failed to get block by hash. '' @ message error)),
           sent))"

definition eth_getBlockByNumber_handler :: handler where
  "eth_getBlockByNumber_handler net rpcUrl args =
     (case makeRpcCall net ''eth_getBlockByNumber''
             (Some (arr [args ''blockNumber'', args ''fullTransactions''])) (Some rpcUrl) of
        (called, sent) \<Rightarrow>
          (try_catch
             (and_then called (\<lambda>blockData.
              Inr (success (JSON_stringify blockData))))
             (\<lambda>error. failure (''Error: Failed to get block by number. '' @ message error)),
           sent))"

definition eth_getBlockReceipts_handler :: handler where
  "eth_getBlockReceipts_handler net rpcUrl args =
     (case makeRpcCall net ''eth_getBlockReceipts''
             (Some (arr [args ''blockNumberOrHash''])) (Some rpcUrl) of
        (called, sent) \<Rightarrow>
          (try_catch
             (and_then called (\<lambda>receipts.
              Inr (success (JSON_stringify receipts))))
             (\<lambda>error. failure (''Error: Failed to get block receipts. '' @ message error)),
           sent))"

definition eth_getTransactionByHash_handler :: handler where
  "eth_getTransactionByHash_handler net rpcUrl args =
     (case makeRpcCall net ''eth_getTransactionByHash''
             (Some (arr [args ''txHash''])) (Some rpcUrl) of
        (called, sent) \<Rightarrow>
          (try_catch
             (and_then called (\<lambda>txData.
              Inr (success (JSON_stringify txData))))
             (\<lambda>error. failure (''Error: Failed to get transaction by hash. '' @ message error)),
           sent))"

definition eth_getTransactionByBlockHashAndIndex_handler :: handler where
  "eth_getTransactionByBlockHashAndIndex_handler net rpcUrl args =
     (case makeRpcCall net ''eth_getTransactionByBlockHashAndIndex''
             (Some (arr [args ''blockHash'', args ''transactionIndex''])) (Some rpcUrl) of
        (called, sent) \<Rightarrow>
          (try_catch
             (and_then called (\<lambda>txData.
              Inr (success (JSON_stringify txData))))
             (\<lambda>error. failure (''Error: Failed to get transaction by block hash and index. '' @ message error)),
           sent))"

definition eth_getTransactionByBlockNumberAndIndex_handler :: handler where
  "eth_getTransactionByBlockNumberAndIndex_handler net rpcUrl args =
     (case makeRpcCall net ''eth_getTransactionByBlockNumberAndIndex''
             (Some (arr [args ''blockNumber'', args ''transactionIndex''])) (Some rpcUrl) of
        (called, sent) \<Rightarrow>
          (try_catch
             (and_then called (\<lambda>txData.
              Inr (success (JSON_stringify txData))))
             (\<lambda>error. failure (''Error: Failed to get transaction by block number and index. '' @ message error)),
           sent))"

definition eth_getTransactionReceipt_handler :: handler where
  "eth_getTransactionReceipt_handler net rpcUrl args =
     (case makeRpcCall net ''eth_getTransactionReceipt''
             (Some (arr [args ''txHash''])) (Some rpcUrl) of
        (called, sent) \<Rightarrow>
          (try_catch
             (and_then called (\<lambda>receiptData.
              Inr (success (JSON_stringify receiptData))))
             (\<lambda>error. failure (''Error: Failed to get transaction receipt. '' @ message error)),
           sent))"

definition eth_chainId_handler :: handler where
  "eth_chainId_handler net rpcUrl args =
     (case makeRpcCall net ''eth_chainId''
             (Some ([])) (Some rpcUrl) of
        (called, sent) \<Rightarrow>
          (try_catch
             (and_then called (\<lambda>chainId.
              and_then (parseInt16 chainId) (\<lambda>chainIdDecimal.
              and_then (template
                [lit ''Chain ID: '', lit (Number_toString chainIdDecimal),
                 lit '' ('', ToString chainId, lit '')''])
                (\<lambda>t. Inr (success (Some t))))))
             (\<lambda>error. failure (''Error: Failed to get chain ID. '' @ message error)),
           sent))"

definition shardeum_getNodeList_handler :: handler where
  "shardeum_getNodeList_handler net rpcUrl args =
     (case makeRpcCall net ''shardeum_getNodeList''
             (Some ([obj [(''page'', args ''page''), (''limit'', args ''limit'')]])) (Some rpcUrl) of
        (called, sent) \<Rightarrow>
          (try_catch
             (and_then called (\<lambda>nodeList.
              Inr (success (JSON_stringify nodeList))))
             (\<lambda>error. failure (''Error: Failed to get node list. '' @ message error)),
           sent))"

definition shardeum_getNetworkAccount_handler :: handler where
  "shardeum_getNetworkAccount_handler net rpcUrl args =
     (case makeRpcCall net ''shardeum_getNetworkAccount''
             (Some ([])) (Some rpcUrl) of
        (called, sent) \<Rightarrow>
          (try_catch
             (and_then called (\<lambda>networkAccount.
              Inr (success (JSON_stringify networkAccount))))
             (\<lambda>error. failure (''Error: Failed to get network account. '' @ message error)),
           sent))"

definition shardeum_getCycleInfo_handler :: handler where
  "shardeum_getCycleInfo_handler net rpcUrl args =
     (case makeRpcCall net ''shardeum_getCycleInfo''
             (Some (if args ''cycleNumber'' \<noteq> None then arr [args ''cycleNumber''] else [])) (Some rpcUrl) of
        (called, sent) \<Rightarrow>
          (try_catch
             (and_then called (\<lambda>cycleInfo.
              Inr (success (JSON_stringify cycleInfo))))
             (\<lambda>error. failure (''Error: Failed to get cycle information. '' @ message error)),
           sent))"

subsection \<open>Registration\<close>

record registered_tool =
  name :: string
  description :: string
  inputSchema :: "(string \<times> zod) list"
  callback :: "network \<Rightarrow> args \<Rightarrow> tool_result \<times> posts"

definition tool ::
  "string \<Rightarrow> string \<Rightarrow> (string \<times> zod) list \<Rightarrow> (network \<Rightarrow> args \<Rightarrow> tool_result \<times> posts)
     \<Rightarrow> registered_tool" where
  "tool n d sch cb = \<lparr>name = n, description = d, inputSchema = sch, callback = cb\<rparr>"

definition registerTools :: "string option \<Rightarrow> registered_tool list" where
  "registerTools rpcUrl_arg =
     (let rpcUrl = (case rpcUrl_arg of None \<Rightarrow> DEFAULT_RPC_URL | Some u \<Rightarrow> u) in
      [tool ''eth_getBalance''
         ''Retrieves the native token balance of an Ethereum address''
         [(''address'', Describe (Regex ZString Address40)
             ''The Ethereum address to check balance''),
          (''blockParameter'', Describe (Default (Optional ZString) (JStr ''latest''))
             (''Block parameter (default: '' @ [CHR 0x22] @ ''latest'' @ [CHR 0x22] @ '')''))]
         (\<lambda>net. eth_getBalance_handler net rpcUrl),
       tool ''eth_blockNumber''
         ''Retrieves the current block number of the blockchain''
         []
         (\<lambda>net. eth_blockNumber_handler net rpcUrl),
       tool ''eth_getTransactionCount''
         ''Retrieves the number of transactions sent from an address''
         [(''address'', Describe (Regex ZString Address40)
             ''The Ethereum address to check transaction count''),
          (''blockParameter'', Describe (Default ZString (JStr ''latest''))
             (''Block parameter (default: '' @ [CHR 0x22] @ ''latest'' @ [CHR 0x22] @ '')''))]
         (\<lambda>net. eth_getTransactionCount_handler net rpcUrl),
       tool ''eth_getBlockTransactionCountByHash''
         ''Get the number of transactions in a block by block hash''
         [(''blockHash'', Describe (Regex ZString Hash64) ''The block hash to query'')]
         (\<lambda>net. eth_getBlockTransactionCountByHash_handler net rpcUrl),
       tool ''eth_getBlockTransactionCountByNumber''
         ''Get the number of transactions in a block by block number''
         [(''blockNumber'', Describe (Regex ZString HexQuantity)
             ''The block number in hex format'')]
         (\<lambda>net. eth_getBlockTransactionCountByNumber_handler net rpcUrl),
       tool ''eth_estimateGas''
         ''Estimate the gas required for a transaction''
         [(''from'', Describe (Optional (Regex ZString Address40)) ''Sender address''),
          (''to'', Describe (Optional (Regex ZString Address40)) ''Recipient address''),
          (''value'', Describe (Optional ZString) ''Value to send in hex''),
          (''data'', Describe (Optional ZString) ''Input data for contract call'')]
         (\<lambda>net. eth_estimateGas_handler net rpcUrl),
       tool ''eth_getBlockByHash''
         ''Get block details by block hash''
         [(''blockHash'', Describe (Regex ZString Hash64) ''The block hash to query''),
          (''fullTransactions'', Describe (Default ZBoolean (JBool False))
             ''Whether to return full transaction details'')]
         (\<lambda>net. eth_getBlockByHash_handler net rpcUrl),
       tool ''eth_getBlockByNumber''
         ''Get block details by block number''
         [(''blockNumber'', Describe (Regex ZString HexQuantity)
             ''The block number in hex format''),
          (''fullTransactions'', Describe (Default ZBoolean (JBool False))
             ''Whether to return full transaction details'')]
         (\<lambda>net. eth_getBlockByNumber_handler net rpcUrl),
       tool ''eth_getBlockReceipts''
         ''Get receipts for all transactions in a block''
         [(''blockNumberOrHash'', Describe ZString ''Block number or hash in hex format'')]
         (\<lambda>net. eth_getBlockReceipts_handler net rpcUrl),
       tool ''eth_getTransactionByHash''
         ''Get transaction details by transaction hash''
         [(''txHash'', Describe (Regex ZString Hash64) ''The transaction hash to query'')]
         (\<lambda>net. eth_getTransactionByHash_handler net rpcUrl),
       tool ''eth_getTransactionByBlockHashAndIndex''
         ''Get transaction details by block hash and transaction index''
         [(''blockHash'', Describe (Regex ZString Hash64) ''The block hash''),
          (''transactionIndex'', Describe (Regex ZString HexQuantity)
             ''Transaction index in hex'')]
         (\<lambda>net. eth_getTransactionByBlockHashAndIndex_handler net rpcUrl),
       tool ''eth_getTransactionByBlockNumberAndIndex''
         ''Get transaction details by block number and transaction index''
         [(''blockNumber'', Describe (Regex ZString HexQuantity)
             ''The block number in hex format''),
          (''transactionIndex'', Describe (Regex ZString HexQuantity)
             ''Transaction index in hex'')]
         (\<lambda>net. eth_getTransactionByBlockNumberAndIndex_handler net rpcUrl),
       tool ''eth_getTransactionReceipt''
         ''Get transaction receipt by transaction hash''
         [(''txHash'', Describe (Regex ZString Hash64) ''The transaction hash to query'')]
         (\<lambda>net. eth_getTransactionReceipt_handler net rpcUrl),
       tool ''eth_chainId''
         ''Get the chain ID of the current network''
         []
         (\<lambda>net. eth_chainId_handler net rpcUrl),
       tool ''shardeum_getNodeList''
         ''Get a list of Shardeum network nodes''
         [(''page'', Describe (Default (Optional ZNumber) (JNum 1))
             ''Page number for pagination''),
          (''limit'', Describe (Default (Optional ZNumber) (JNum 100))
             ''Number of nodes per page'')]
         (\<lambda>net. shardeum_getNodeList_handler net rpcUrl),
       tool ''shardeum_getNetworkAccount''
         ''Get detailed information about the Shardeum network account''
         []
         (\<lambda>net. shardeum_getNetworkAccount_handler net rpcUrl),
       tool ''shardeum_getCycleInfo''
         ''Get information about the current or a specific Shardeum network cycle''
         [(''cycleNumber'', Describe (Optional ZNumber)
             ''Specific cycle number to query. If not provided, returns current cycle.'')]
         (\<lambda>net. shardeum_getCycleInfo_handler net rpcUrl)])"

text \<open>
  A call of a tool by its name.  The server looks the tool up, parses the arguments
  against the schema it was registered with, and runs the callback on the parsed
  arguments only when they pass.  What the server reports for an unknown tool or for
  rejected arguments is decided outside this repository; here both are outcomes of
  their own, in which the callback has not run and nothing has been posted.
\<close>

datatype dispatch = UnknownTool | InvalidArguments | Ran tool_result

definition call_tool ::
  "registered_tool list \<Rightarrow> network \<Rightarrow> string \<Rightarrow> args \<Rightarrow> dispatch \<times> posts" where
  "call_tool tools net n raw =
     (case find (\<lambda>t. name t = n) tools of
        None \<Rightarrow> (UnknownTool, [])
      | Some t \<Rightarrow>
          (case parse_shape (inputSchema t) raw of
             None \<Rightarrow> (InvalidArguments, [])
           | Some parsed \<Rightarrow>
               (case callback t net parsed of (r, sent) \<Rightarrow> (Ran r, sent))))"

text \<open>The tools whose result is a hexadecimal quantity printed in decimal.\<close>

definition hex_quantity_tools :: "string list" where
  "hex_quantity_tools =
     [''eth_blockNumber'', ''eth_chainId'', ''eth_getTransactionCount'',
      ''eth_getBlockTransactionCountByHash'', ''eth_getBlockTransactionCountByNumber'',
      ''eth_estimateGas'']"

text \<open>The tools whose result is printed as JSON text.\<close>

definition structured_tools :: "string list" where
  "structured_tools =
     [''eth_getBlockByHash'', ''eth_getBlockByNumber'', ''eth_getBlockReceipts'',
      ''eth_getTransactionByHash'', ''eth_getTransactionByBlockHashAndIndex'',
      ''eth_getTransactionByBlockNumberAndIndex'', ''eth_getTransactionReceipt'',
      ''shardeum_getNodeList'', ''shardeum_getNetworkAccount'', ''shardeum_getCycleInfo'']"

definition the_url :: "string option \<Rightarrow> string" where
  "the_url rpcUrl_arg = (case rpcUrl_arg of None \<Rightarrow> DEFAULT_RPC_URL | Some u \<Rightarrow> u)"

text \<open>The envelope that \<^verbatim>\<open>makeRpcCall\<close> builds for a method and a parameter list.\<close>

definition envelope :: "string \<Rightarrow> json list option \<Rightarrow> rpc_request" where
  "envelope m ps = \<lparr>jsonrpc = ''2.0'', id = 1, rpc_method = m,
         params = (case ps of None \<Rightarrow> [] | Some p \<Rightarrow> p)\<rparr>"

text \<open>
  The values that are neither arrays nor objects, and the schemas whose defaults are
  such values: the arguments that such a schema accepts always have a string form.
\<close>

fun scalar :: "json \<Rightarrow> bool" where
  "scalar (JArr xs) = False"
| "scalar (JObj kvs) = False"
| "scalar v = True"

fun scalar_defaults :: "zod \<Rightarrow> bool" where
  "scalar_defaults (Regex z r) = scalar_defaults z"
| "scalar_defaults (Optional z) = scalar_defaults z"
| "scalar_defaults (Default z d) = (scalar d \<and> scalar_defaults z)"
| "scalar_defaults (Describe z t) = scalar_defaults z"
| "scalar_defaults z = True"


section \<open>Properties\<close>

subsection \<open>The client and the shape of a handler\<close>

lemmas handler_defs =
  eth_getBalance_handler_def eth_blockNumber_handler_def eth_getTransactionCount_handler_def
  eth_getBlockTransactionCountByHash_handler_def eth_getBlockTransactionCountByNumber_handler_def
  eth_estimateGas_handler_def eth_getBlockByHash_handler_def eth_getBlockByNumber_handler_def
  eth_getBlockReceipts_handler_def eth_getTransactionByHash_handler_def
  eth_getTransactionByBlockHashAndIndex_handler_def
  eth_getTransactionByBlockNumberAndIndex_handler_def eth_getTransactionReceipt_handler_def
  eth_chainId_handler_def shardeum_getNodeList_handler_def shardeum_getNetworkAccount_handler_def
  shardeum_getCycleInfo_handler_def

lemma and_then_Inl [simp]: "and_then (Inl e) f = Inl e"
  by (simp add: and_then_def)

lemma and_then_Inr [simp]: "and_then (Inr v) f = f v"
  by (simp add: and_then_def)

lemma try_catch_Inl [simp]: "try_catch (Inl e) h = h e"
  by (simp add: try_catch_def)

lemma try_catch_Inr [simp]: "try_catch (Inr v) h = v"
  by (simp add: try_catch_def)

lemma template_lit_ToString:
  "template [lit a, r] = (case r of Inl e \<Rightarrow> Inl e | Inr s \<Rightarrow> Inr (a @ s))"
  by (simp add: template_def lit_def split: sum.splits)

lemma the_url_Some [simp]: "the_url (Some x) = x"
  by (simp add: the_url_def)

lemma the_url_None [simp]: "the_url None = DEFAULT_RPC_URL"
  by (simp add: the_url_def)

lemma makeRpcCall_sent:
  "snd (makeRpcCall net m ps u) = [(the_url u, envelope m ps)]"
  by (simp add: makeRpcCall_def the_url_def Let_def envelope_def)

lemma makeRpcCall_rpc_error:
  assumes "net (the_url u) (envelope m ps) = Resolves data"
    and "get_prop data ''error'' = Some err" and "truthy (Some err)"
  shows "fst (makeRpcCall net m ps u) =
           (case ToString (get_prop err ''message'') of
              Inl e \<Rightarrow> Inl e
            | Inr s \<Rightarrow> Inl (Error (''RPC Error: '' @ s)))"
proof -
  have "data \<noteq> JNull" using assms(2) by auto
  then show ?thesis
    using assms
    by (simp add: makeRpcCall_def the_url_def Let_def envelope_def template_lit_ToString
        split: sum.splits)
qed

lemma makeRpcCall_result:
  assumes "net (the_url u) (envelope m ps) = Resolves data"
    and "data \<noteq> JNull" and "\<not> truthy (get_prop data ''error'')"
  shows "fst (makeRpcCall net m ps u) = Inr (get_prop data ''result'')"
  using assms by (simp add: makeRpcCall_def the_url_def Let_def envelope_def)

lemma snd_case_called:
  "snd (case p of (called, sent) \<Rightarrow> (F called, sent)) = snd p"
  by (cases p) simp

lemma fst_case_called:
  "fst (case p of (called, sent) \<Rightarrow> (F called, sent)) = F (fst p)"
  by (cases p) simp

lemma callback_sent:
  "list_all (\<lambda>t. \<exists>ps. snd (callback t net a) =
       [(the_url u, \<lparr>jsonrpc = ''2.0'', id = 1, rpc_method = name t, params = ps\<rparr>)])
     (registerTools u)"
  unfolding registerTools_def tool_def the_url_def[symmetric] handler_defs
  by (simp add: Let_def snd_case_called makeRpcCall_sent envelope_def)

lemma find_registered:
  "find (\<lambda>t. name t = n) (registerTools u) = Some t \<Longrightarrow> t \<in> set (registerTools u) \<and> name t = n"
  by (auto simp: find_Some_iff)

subsection \<open>The request envelope\<close>

text \<open>
  Claim C9.  Every call of the RPC client posts exactly one request, the envelope with
  protocol version \<open>2.0\<close>, identifier \<open>1\<close>, the method and the parameters.  The
  callback of every registered tool posts exactly one such request, for the method named
  like the tool; a call of a tool posts that request or, when the tool is unknown or the
  arguments are rejected, none.  The identifier is \<open>1\<close> in every request: nothing counts
  the calls.
\<close>

theorem envelope_id_fixed_one_request:
  "snd (makeRpcCall net m ps u) =
     [(the_url u, \<lparr>jsonrpc = ''2.0'', id = 1, rpc_method = m,
         params = (case ps of None \<Rightarrow> [] | Some p \<Rightarrow> p)\<rparr>)]
   \<and> (\<forall>t \<in> set (registerTools u). \<exists>ps'. snd (callback t net a) =
         [(the_url u, \<lparr>jsonrpc = ''2.0'', id = 1, rpc_method = name t, params = ps'\<rparr>)])
   \<and> (snd (call_tool (registerTools u) net n raw) = []
        \<or> (\<exists>ps'. snd (call_tool (registerTools u) net n raw) =
              [(the_url u, \<lparr>jsonrpc = ''2.0'', id = 1, rpc_method = n, params = ps'\<rparr>)]))"
proof (intro conjI)
  show "snd (makeRpcCall net m ps u) =
     [(the_url u, \<lparr>jsonrpc = ''2.0'', id = 1, rpc_method = m,
         params = (case ps of None \<Rightarrow> [] | Some p \<Rightarrow> p)\<rparr>)]"
    by (simp add: makeRpcCall_sent envelope_def)
  show all: "\<forall>t \<in> set (registerTools u). \<exists>ps'. snd (callback t net a) =
         [(the_url u, \<lparr>jsonrpc = ''2.0'', id = 1, rpc_method = name t, params = ps'\<rparr>)]" for a
    using callback_sent[of net a u] by (simp add: list_all_iff)
  show "snd (call_tool (registerTools u) net n raw) = []
        \<or> (\<exists>ps'. snd (call_tool (registerTools u) net n raw) =
              [(the_url u, \<lparr>jsonrpc = ''2.0'', id = 1, rpc_method = n, params = ps'\<rparr>)])"
  proof (cases "find (\<lambda>t. name t = n) (registerTools u)")
    case None
    then show ?thesis by (simp add: call_tool_def)
  next
    case (Some t)
    note t = find_registered[OF Some]
    show ?thesis
    proof (cases "parse_shape (inputSchema t) raw")
      case None
      with Some show ?thesis by (simp add: call_tool_def)
    next
      case (Some parsed)
      from all[of parsed] t obtain ps' where
        "snd (callback t net parsed) =
           [(the_url u, \<lparr>jsonrpc = ''2.0'', id = 1, rpc_method = n, params = ps'\<rparr>)]"
        by blast
      with Some \<open>find _ _ = Some t\<close> show ?thesis
        by (auto simp: call_tool_def split: prod.splits)
    qed
  qed
qed

theorem envelope_id_fixed_one_request_witness:
  "snd (call_tool (registerTools None) (\<lambda>url rq. Resolves JNull) ''eth_chainId'' Map.empty) =
     [(DEFAULT_RPC_URL, \<lparr>jsonrpc = ''2.0'', id = 1, rpc_method = ''eth_chainId'', params = []\<rparr>)]"
proof -
  have "tool ''eth_chainId'' ''Get the chain ID of the current network'' []
          (\<lambda>net. eth_chainId_handler net DEFAULT_RPC_URL) \<in> set (registerTools None)"
    by (simp add: registerTools_def)
  with envelope_id_fixed_one_request[of "\<lambda>url rq. Resolves JNull" "''eth_chainId''" "Some []"
      None Map.empty "''eth_chainId''" Map.empty]
  have "\<exists>ps'. snd (eth_chainId_handler (\<lambda>url rq. Resolves JNull) DEFAULT_RPC_URL Map.empty) =
      [(DEFAULT_RPC_URL, \<lparr>jsonrpc = ''2.0'', id = 1, rpc_method = ''eth_chainId'', params = ps'\<rparr>)]"
    by (auto simp: tool_def the_url_def)
  then show ?thesis
    by (simp add: call_tool_def registerTools_def tool_def eth_chainId_handler_def
        makeRpcCall_def split: prod.splits)
qed


subsection \<open>Errors of the remote node\<close>

lemma callback_rpc_error:
  assumes net: "\<And>url rq. net url rq = Resolves data"
    and err: "get_prop data ''error'' = Some (JObj e)"
    and msg: "map_of e ''message'' = Some (JStr m)"
  shows "list_all (\<lambda>t. \<exists>pre. fst (callback t net a) = failure (pre @ ''RPC Error: '' @ m))
           (registerTools u)"
proof -
  have fail: "fst (makeRpcCall net mm ps uu) = Inl (Error (''RPC Error: '' @ m))" for mm ps uu
    using makeRpcCall_rpc_error[OF net err] msg by simp
  show ?thesis
    unfolding registerTools_def tool_def Let_def
    apply (simp only: list.pred_inject registered_tool.select_convs handler_defs Let_def
        fst_case_called fail and_then_Inl try_catch_Inl message.simps)
    apply (intro conjI TrueI; rule exI; rule refl)
    done
qed

text \<open>
  Claim C3.  When the body of the response has an \<^verbatim>\<open>error\<close> object with the message
  \<open>m\<close>, the callback of every registered tool returns a result whose error flag is set and
  whose text ends with \<^verbatim>\<open>RPC Error: \<close> followed by \<open>m\<close>.  The callback returns a result
  whatever the arguments: the error thrown by the client is consumed by the
  \<^verbatim>\<open>catch\<close> of the handler.
\<close>

theorem rpc_error_reported_by_every_tool:
  assumes "\<And>url rq. net url rq = Resolves data"
    and "get_prop data ''error'' = Some (JObj e)"
    and "map_of e ''message'' = Some (JStr m)"
    and "t \<in> set (registerTools u)"
  shows "\<exists>pre. fst (callback t net a) =
           \<lparr>content = [\<lparr>type = ''text'', text' = Some (pre @ ''RPC Error: '' @ m)\<rparr>],
            isError = True\<rparr>"
  using callback_rpc_error[OF assms(1-3), where a = a and u = u] assms(4)
  by (simp add: list_all_iff failure_def)

theorem rpc_error_reported_by_every_tool_witness:
  "\<exists>pre. fst (eth_chainId_handler
       (\<lambda>url rq. Resolves (JObj [(''jsonrpc'', JStr ''2.0''), (''id'', JNum 1),
          (''error'', JObj [(''code'', JNum (- 32601)), (''message'', JStr ''Method not found'')])]))
       DEFAULT_RPC_URL Map.empty) =
     \<lparr>content = [\<lparr>type = ''text'', text' = Some (pre @ ''RPC Error: Method not found'')\<rparr>],
      isError = True\<rparr>"
proof -
  have mem: "tool ''eth_chainId'' ''Get the chain ID of the current network'' []
          (\<lambda>net. eth_chainId_handler net DEFAULT_RPC_URL) \<in> set (registerTools None)"
    by (simp add: registerTools_def)
  show ?thesis
    using rpc_error_reported_by_every_tool[where u = None and a = Map.empty and m = "''Method not found''"
        and e = "[(''code'', JNum (- 32601)), (''message'', JStr ''Method not found'')]", OF _ _ _ mem]
    by (simp add: tool_def)
qed

text \<open>
  Claim C4, as amended.  When the response resolves with a body whose \<^verbatim>\<open>error\<close> member
  is truthy, the client fails after a single request: there is no retry.  The error it
  throws is made from the \<^verbatim>\<open>message\<close> of the remote error alone: an \<^verbatim>\<open>Error\<close> whose
  message is \<^verbatim>\<open>RPC Error: \<close> followed by the string form of that member (the member
  itself when it is a string), or, when that member has no string form, the
  \<^verbatim>\<open>TypeError\<close> of the conversion.  The code of the remote error is not read, so the
  error thrown does not carry it.
\<close>

theorem rpc_error_fails_with_message:
  assumes "net (the_url u) \<lparr>jsonrpc = ''2.0'', id = 1, rpc_method = m,
              params = (case ps of None \<Rightarrow> [] | Some p \<Rightarrow> p)\<rparr> = Resolves data"
    and "get_prop data ''error'' = Some err"
    and "truthy (Some err)"
  shows "makeRpcCall net m ps u =
           (Inl (case ToString (get_prop err ''message'') of
                   Inl e \<Rightarrow> e
                 | Inr s \<Rightarrow> Error (''RPC Error: '' @ s)),
            [(the_url u, \<lparr>jsonrpc = ''2.0'', id = 1, rpc_method = m,
                params = (case ps of None \<Rightarrow> [] | Some p \<Rightarrow> p)\<rparr>)])
       \<and> (\<forall>msg. get_prop err ''message'' = Some (JStr msg) \<longrightarrow>
             fst (makeRpcCall net m ps u) = Inl (Error (''RPC Error: '' @ msg)))"
  using makeRpcCall_rpc_error[of net u m ps data err] makeRpcCall_sent[of net m ps u] assms
  by (auto simp: envelope_def prod_eq_iff split: sum.splits)

theorem rpc_error_fails_with_message_witness:
  "makeRpcCall (\<lambda>url rq. Resolves (JObj [(''error'',
        JObj [(''code'', JNum (- 32000)), (''message'', JStr ''boom'')])]))
      ''eth_blockNumber'' (Some []) None
   = (Inl (Error ''RPC Error: boom''),
      [(DEFAULT_RPC_URL, \<lparr>jsonrpc = ''2.0'', id = 1, rpc_method = ''eth_blockNumber'',
          params = []\<rparr>)])
   \<and> makeRpcCall (\<lambda>url rq. Resolves (JObj [(''error'',
        JObj [(''code'', JNum (- 32000)), (''message'', JObj [(''toString'', JStr ''x'')])])]))
      ''eth_blockNumber'' (Some []) None
   = (Inl (TypeError ''Cannot convert object to primitive value''),
      [(DEFAULT_RPC_URL, \<lparr>jsonrpc = ''2.0'', id = 1, rpc_method = ''eth_blockNumber'',
          params = []\<rparr>)])"
  using rpc_error_fails_with_message[of
      "\<lambda>url rq. Resolves (JObj [(''error'',
        JObj [(''code'', JNum (- 32000)), (''message'', JStr ''boom'')])])"
      None "''eth_blockNumber''" "Some []" _
      "JObj [(''code'', JNum (- 32000)), (''message'', JStr ''boom'')]"]
    rpc_error_fails_with_message[of
      "\<lambda>url rq. Resolves (JObj [(''error'',
        JObj [(''code'', JNum (- 32000)), (''message'', JObj [(''toString'', JStr ''x'')])])])"
      None "''eth_blockNumber''" "Some []" _
      "JObj [(''code'', JNum (- 32000)), (''message'', JObj [(''toString'', JStr ''x'')])]"]
  by simp

text \<open>
  Against the claim as it was stated: two responses that differ only in the code of the
  error make the client fail with the same error, so the code is not carried; and a
  response whose \<^verbatim>\<open>error\<close> member is \<^verbatim>\<open>null\<close> does not make the client fail.
\<close>

theorem error_code_not_carried_counterexample:
  "makeRpcCall (\<lambda>url rq. Resolves (JObj [(''error'',
        JObj [(''code'', JNum (- 32000)), (''message'', JStr ''boom'')])]))
      ''eth_blockNumber'' (Some []) None
   = makeRpcCall (\<lambda>url rq. Resolves (JObj [(''error'',
        JObj [(''code'', JNum (- 32601)), (''message'', JStr ''boom'')])]))
      ''eth_blockNumber'' (Some []) None
   \<and> fst (makeRpcCall (\<lambda>url rq. Resolves (JObj [(''error'',
        JObj [(''code'', JNum (- 32000)), (''message'', JStr ''boom'')])]))
      ''eth_blockNumber'' (Some []) None) = Inl (Error ''RPC Error: boom'')
   \<and> fst (makeRpcCall (\<lambda>url rq. Resolves (JObj [(''error'', JNull), (''result'', JStr ''0x10'')]))
      ''eth_blockNumber'' (Some []) None) = Inr (Some (JStr ''0x10''))"
  by (simp add: makeRpcCall_def template_lit_ToString)

subsection \<open>Validation of the arguments\<close>

lemma find_name_registerTools:
  "find (\<lambda>t. name t = ''eth_getBalance'') (registerTools u)
     = Some (tool ''eth_getBalance''
         ''Retrieves the native token balance of an Ethereum address''
         [(''address'', Describe (Regex ZString Address40)
             ''The Ethereum address to check balance''),
          (''blockParameter'', Describe (Default (Optional ZString) (JStr ''latest''))
             (''Block parameter (default: '' @ [CHR 0x22] @ ''latest'' @ [CHR 0x22] @ '')''))]
         (\<lambda>net. eth_getBalance_handler net (the_url u)))"
  "find (\<lambda>t. name t = ''eth_getTransactionCount'') (registerTools u)
     = Some (tool ''eth_getTransactionCount''
         ''Retrieves the number of transactions sent from an address''
         [(''address'', Describe (Regex ZString Address40)
             ''The Ethereum address to check transaction count''),
          (''blockParameter'', Describe (Default ZString (JStr ''latest''))
             (''Block parameter (default: '' @ [CHR 0x22] @ ''latest'' @ [CHR 0x22] @ '')''))]
         (\<lambda>net. eth_getTransactionCount_handler net (the_url u)))"
  "find (\<lambda>t. name t = ''eth_estimateGas'') (registerTools u)
     = Some (tool ''eth_estimateGas''
         ''Estimate the gas required for a transaction''
         [(''from'', Describe (Optional (Regex ZString Address40)) ''Sender address''),
          (''to'', Describe (Optional (Regex ZString Address40)) ''Recipient address''),
          (''value'', Describe (Optional ZString) ''Value to send in hex''),
          (''data'', Describe (Optional ZString) ''Input data for contract call'')]
         (\<lambda>net. eth_estimateGas_handler net (the_url u)))"
  by (simp_all add: registerTools_def tool_def the_url_def Let_def)

lemma regex_test_Address40_iff:
  "regex_test Address40 s \<longleftrightarrow>
     length s = 42 \<and> take 2 s = ''0x'' \<and> list_all is_hex_char (drop 2 s)"
proof -
  have "length (drop 2 s) = 40 \<longleftrightarrow> length s = 42" by (simp; arith)
  then show ?thesis by (simp only: regex_test.simps) blast
qed

lemma call_tool_Ran:
  assumes "find (\<lambda>t. name t = n) tools = Some t"
    and "parse_shape (inputSchema t) raw = Some parsed"
  shows "call_tool tools net n raw =
           (Ran (fst (callback t net parsed)), snd (callback t net parsed))"
  using assms by (simp add: call_tool_def split: prod.splits)

lemma call_tool_Invalid:
  assumes "find (\<lambda>t. name t = n) tools = Some t"
    and "parse_shape (inputSchema t) raw = None"
  shows "call_tool tools net n raw = (InvalidArguments, [])"
  using assms by (simp add: call_tool_def)

text \<open>
  Claim C5.  An address that has the wrong length, lacks the prefix \<^verbatim>\<open>0x\<close> or has a
  character that is not a hexadecimal digit is rejected by every tool that takes an
  address: \<^verbatim>\<open>eth_getBalance\<close> and \<^verbatim>\<open>eth_getTransactionCount\<close> for their
  \<^verbatim>\<open>address\<close>, \<^verbatim>\<open>eth_estimateGas\<close> for \<^verbatim>\<open>from\<close> and for \<^verbatim>\<open>to\<close>.  The
  callback does not run and no request is posted.
\<close>

theorem malformed_address_rejected:
  assumes "length s \<noteq> 42 \<or> take 2 s \<noteq> ''0x'' \<or> \<not> list_all is_hex_char (drop 2 s)"
  shows "(raw ''address'' = Some (JStr s) \<longrightarrow>
            call_tool (registerTools u) net ''eth_getBalance'' raw = (InvalidArguments, [])
          \<and> call_tool (registerTools u) net ''eth_getTransactionCount'' raw = (InvalidArguments, []))
       \<and> (raw ''from'' = Some (JStr s) \<or> raw ''to'' = Some (JStr s) \<longrightarrow>
            call_tool (registerTools u) net ''eth_estimateGas'' raw = (InvalidArguments, []))"
proof -
  from assms have bad: "\<not> regex_test Address40 s"
    by (simp only: regex_test_Address40_iff) blast
  have 1: "call_tool (registerTools u) net ''eth_getBalance'' raw = (InvalidArguments, [])"
    if "raw ''address'' = Some (JStr s)"
    by (rule call_tool_Invalid[OF find_name_registerTools(1)])
       (use that bad in \<open>simp add: tool_def del: regex_test.simps\<close>)
  have 2: "call_tool (registerTools u) net ''eth_getTransactionCount'' raw = (InvalidArguments, [])"
    if "raw ''address'' = Some (JStr s)"
    by (rule call_tool_Invalid[OF find_name_registerTools(2)])
       (use that bad in \<open>simp add: tool_def del: regex_test.simps\<close>)
  have 3: "call_tool (registerTools u) net ''eth_estimateGas'' raw = (InvalidArguments, [])"
    if "raw ''from'' = Some (JStr s) \<or> raw ''to'' = Some (JStr s)"
    by (rule call_tool_Invalid[OF find_name_registerTools(3)])
       (use that bad in \<open>auto simp add: tool_def split: option.splits json.splits simp del: regex_test.simps\<close>)
  from 1 2 3 show ?thesis by blast
qed

theorem malformed_address_rejected_witness:
  "call_tool (registerTools None) (\<lambda>url rq. Resolves JNull) ''eth_getBalance''
      [''address'' \<mapsto> JStr ''0x12345''] = (InvalidArguments, [])
   \<and> call_tool (registerTools None) (\<lambda>url rq. Resolves JNull) ''eth_getTransactionCount''
      [''address'' \<mapsto> JStr ''0x12345''] = (InvalidArguments, [])"
  using malformed_address_rejected[of "''0x12345''" "[''address'' \<mapsto> JStr ''0x12345'']" None
      "\<lambda>url rq. Resolves JNull"]
  by simp

text \<open>
  Claim C7.  The two tools with a block parameter are \<^verbatim>\<open>eth_getBalance\<close> and
  \<^verbatim>\<open>eth_getTransactionCount\<close>.  When the caller gives a well-formed address and leaves
  the block parameter out, the one request posted has the parameter list of the address
  followed by the string \<^verbatim>\<open>latest\<close>.
\<close>

theorem block_parameter_defaults_to_latest:
  assumes "n = ''eth_getBalance'' \<or> n = ''eth_getTransactionCount''"
    and "raw ''blockParameter'' = None"
    and "raw ''address'' = Some (JStr a)"
    and "regex_test Address40 a"
  shows "snd (call_tool (registerTools u) net n raw) =
           [(the_url u, \<lparr>jsonrpc = ''2.0'', id = 1, rpc_method = n,
                       params = [JStr a, JStr ''latest'']\<rparr>)]"
proof -
  let ?parsed = "[''blockParameter'' \<mapsto> JStr ''latest'', ''address'' \<mapsto> JStr a]"
  from assms(1) show ?thesis
  proof
    assume n: "n = ''eth_getBalance''"
    show ?thesis
      unfolding n
      apply (subst call_tool_Ran[OF find_name_registerTools(1), where parsed = ?parsed])
      using assms(2-4) apply (simp add: tool_def del: regex_test.simps)
      apply (simp add: tool_def eth_getBalance_handler_def snd_case_called makeRpcCall_sent
          envelope_def arr_def)
      done
  next
    assume n: "n = ''eth_getTransactionCount''"
    show ?thesis
      unfolding n
      apply (subst call_tool_Ran[OF find_name_registerTools(2), where parsed = ?parsed])
      using assms(2-4) apply (simp add: tool_def del: regex_test.simps)
      apply (simp add: tool_def eth_getTransactionCount_handler_def snd_case_called
          makeRpcCall_sent envelope_def arr_def)
      done
  qed
qed

theorem block_parameter_defaults_to_latest_witness:
  "snd (call_tool (registerTools None) (\<lambda>url rq. Resolves JNull) ''eth_getBalance''
      [''address'' \<mapsto> JStr ''0x00000000000000000000000000000000000000aB'']) =
     [(DEFAULT_RPC_URL, \<lparr>jsonrpc = ''2.0'', id = 1, rpc_method = ''eth_getBalance'',
          params = [JStr ''0x00000000000000000000000000000000000000aB'', JStr ''latest'']\<rparr>)]"
  using block_parameter_defaults_to_latest[of "''eth_getBalance''"
      "[''address'' \<mapsto> JStr ''0x00000000000000000000000000000000000000aB'']"
      "''0x00000000000000000000000000000000000000aB''" None "\<lambda>url rq. Resolves JNull"]
  by (simp add: is_hex_char_def)


subsection \<open>Arguments that passed a schema\<close>

lemma zparse_scalar:
  "scalar_defaults z \<Longrightarrow> zparse z v = Some (Some y) \<Longrightarrow> scalar y"
proof (induction z arbitrary: v)
  case ZString
  then show ?case by (auto split: option.splits json.splits)
next
  case ZNumber
  then show ?case by (auto split: option.splits json.splits)
next
  case ZBoolean
  then show ?case by (auto split: option.splits json.splits)
next
  case (Regex z r)
  then show ?case by (auto split: option.splits json.splits if_splits)
next
  case (Optional z)
  then show ?case by (cases v) auto
next
  case (Default z d)
  then show ?case by (cases v) auto
next
  case (Describe z t)
  then show ?case by auto
qed

lemma parse_shape_scalar:
  "list_all (\<lambda>(k, z). scalar_defaults z) shape \<Longrightarrow> parse_shape shape raw = Some parsed \<Longrightarrow>
     parsed key = Some y \<Longrightarrow> scalar y"
proof (induction shape arbitrary: parsed)
  case Nil
  then show ?case by auto
next
  case (Cons kz shape)
  obtain k z where kz: "kz = (k, z)" by (cases kz)
  from Cons.prems(2) obtain v rest where v: "zparse z (raw k) = Some v"
    and rest: "parse_shape shape raw = Some rest" and parsed: "parsed = rest(k := v)"
    unfolding kz by (auto split: option.splits)
  show ?case
  proof (cases "key = k")
    case True
    with parsed Cons.prems(3) have "v = Some y" by simp
    with v Cons.prems(1) show ?thesis unfolding kz by (auto dest: zparse_scalar)
  next
    case False
    with parsed Cons.prems(3) have "rest key = Some y" by simp
    with Cons.IH[OF _ rest] Cons.prems(1) show ?thesis by simp
  qed
qed

lemma ToString_scalar: "scalar y \<Longrightarrow> \<exists>s. ToString (Some y) = Inr s"
  by (cases y) auto

lemma registered_schemas_scalar:
  "list_all (\<lambda>t. list_all (\<lambda>(k, z). scalar_defaults z) (inputSchema t)) (registerTools u)"
  by (simp add: registerTools_def tool_def Let_def)

lemma parsed_arguments_print:
  assumes "t \<in> set (registerTools u)" and "parse_shape (inputSchema t) raw = Some a"
  shows "\<exists>shown. \<forall>k. ToString (a k) = Inr (shown k)"
proof -
  have sch: "list_all (\<lambda>(k, z). scalar_defaults z) (inputSchema t)"
    using registered_schemas_scalar[of u] assms(1) by (simp add: list_all_iff)
  have "\<exists>s. ToString (a k) = Inr s" for k
  proof (cases "a k")
    case None
    then show ?thesis by simp
  next
    case (Some y)
    with parse_shape_scalar[OF sch assms(2)] have "scalar y" by blast
    with Some ToString_scalar[of y] show ?thesis by simp
  qed
  then show ?thesis by metis
qed

subsection \<open>Results that are hexadecimal quantities\<close>

lemma ex_pre_base: "\<exists>pre. T = pre @ T"
  by (rule exI[of _ "[]"]) simp

lemma ex_pre_step: "\<exists>pre. X = pre @ T \<Longrightarrow> \<exists>pre. A @ X = pre @ T"
  by (metis append.assoc)

lemma ex_success: "\<exists>pre. X = pre @ T \<Longrightarrow> \<exists>pre. success (Some X) = success (Some (pre @ T))"
  by auto

lemma hex_quantity_text:
  assumes ok: "\<And>m ps uu. fst (makeRpcCall net m ps uu) = Inr v"
    and ts: "ToString v = Inr s"
    and shown: "\<And>k. ToString (a k) = Inr (shown k)"
  shows "list_all (\<lambda>t. name t \<in> set hex_quantity_tools \<longrightarrow>
           (\<exists>pre. fst (callback t net a) =
              success (Some (pre @ Number_toString (parseInt16_string s) @ '' ('' @ s @ '')''))))
           (registerTools u)"
  unfolding registerTools_def tool_def Let_def
  apply (simp only: list.pred_inject registered_tool.select_convs handler_defs Let_def
      fst_case_called ok and_then_Inr parseInt16_def ts shown template_def lit_def
      collect.simps sum.case concat.simps append_Nil2 try_catch_Inr)
  apply (intro conjI impI TrueI)
  apply ((rule ex_success, (rule ex_pre_base | rule ex_pre_step)+) | simp add: hex_quantity_tools_def)+
  done

text \<open>
  Claim C10, as amended.  For each of the six tools that print a hexadecimal quantity in
  decimal, run on arguments that passed its schema: when the call of the node succeeds
  with a result that has a string form \<open>s\<close> in which \<^verbatim>\<open>parseInt\<close> finds no number (as for
  \<^verbatim>\<open>null\<close>), the callback returns a result that is not flagged as an error and whose
  text ends with \<^verbatim>\<open>NaN\<close> and \<open>s\<close> in parentheses.  A result that has no string form is
  not covered: there \<^verbatim>\<open>parseInt\<close> throws and the handler reports an error.
\<close>

theorem unparseable_result_prints_NaN:
  assumes "t \<in> set (registerTools u)"
    and "name t \<in> set hex_quantity_tools"
    and "parse_shape (inputSchema t) raw = Some a"
    and "\<And>url rq. net url rq = Resolves data"
    and "data \<noteq> JNull"
    and "\<not> truthy (get_prop data ''error'')"
    and "ToString (get_prop data ''result'') = Inr s"
    and "parseInt16_string s = NaN"
  shows "\<exists>pre. fst (callback t net a) =
           \<lparr>content = [\<lparr>type = ''text'', text' = Some (pre @ ''NaN ('' @ s @ '')'')\<rparr>],
            isError = False\<rparr>"
proof -
  have ok: "fst (makeRpcCall net m ps uu) = Inr (get_prop data ''result'')" for m ps uu
    by (rule makeRpcCall_result[OF assms(4) assms(5) assms(6)])
  from parsed_arguments_print[OF assms(1) assms(3)]
  obtain shown where shown: "\<And>k. ToString (a k) = Inr (shown k)" by blast
  from hex_quantity_text[OF ok assms(7) shown, where u = u] assms(1,2,8)
  show ?thesis
    by (simp add: list_all_iff success_def)
qed

theorem unparseable_result_prints_NaN_witness:
  "fst (eth_blockNumber_handler
          (\<lambda>url rq. Resolves (JObj [(''jsonrpc'', JStr ''2.0''), (''id'', JNum 1), (''result'', JNull)]))
          DEFAULT_RPC_URL Map.empty) =
     \<lparr>content = [\<lparr>type = ''text'', text' = Some ''Current Block Number: NaN (null)''\<rparr>],
      isError = False\<rparr>"
proof -
  let ?data = "JObj [(''jsonrpc'', JStr ''2.0''), (''id'', JNum 1), (''result'', JNull)]"
  have mem: "tool ''eth_blockNumber'' ''Retrieves the current block number of the blockchain'' []
          (\<lambda>net. eth_blockNumber_handler net DEFAULT_RPC_URL) \<in> set (registerTools None)"
    by (simp add: registerTools_def)
  have nan: "parseInt16_string ''null'' = NaN"
    by (simp add: parseInt16_string_def is_js_space_def is_hex_char_def)
  from unparseable_result_prints_NaN[OF mem _ _ _ _ _ _ nan, where net = "\<lambda>url rq. Resolves ?data"
      and data = ?data and a = Map.empty and raw = Map.empty]
  obtain pre where "fst (eth_blockNumber_handler (\<lambda>url rq. Resolves ?data) DEFAULT_RPC_URL Map.empty) =
     \<lparr>content = [\<lparr>type = ''text'', text' = Some (pre @ ''NaN (null)'')\<rparr>], isError = False\<rparr>"
    by (auto simp: tool_def hex_quantity_tools_def)
  then show ?thesis
    by (simp add: eth_blockNumber_handler_def makeRpcCall_def success_def parseInt16_def nan
        template_def lit_def)
qed

text \<open>
  Against the claim as it was stated: a result that is an object with a member
  \<^verbatim>\<open>toString\<close> of its own is not a hexadecimal string either, but the call of
  \<^verbatim>\<open>eth_blockNumber\<close> then returns a result flagged as an error, without \<^verbatim>\<open>NaN\<close>.
\<close>

theorem unparseable_result_error_counterexample:
  "call_tool (registerTools None)
      (\<lambda>url rq. Resolves (JObj [(''jsonrpc'', JStr ''2.0''), (''id'', JNum 1),
          (''result'', JObj [(''toString'', JStr ''x'')])]))
      ''eth_blockNumber'' Map.empty =
     (Ran \<lparr>content = [\<lparr>type = ''text'',
            text' = Some ''Error: Failed to get block number. Cannot convert object to primitive value''\<rparr>],
          isError = True\<rparr>,
      [(DEFAULT_RPC_URL, \<lparr>jsonrpc = ''2.0'', id = 1, rpc_method = ''eth_blockNumber'',
          params = []\<rparr>)])"
  by (simp add: call_tool_def registerTools_def tool_def eth_blockNumber_handler_def
      makeRpcCall_def failure_def parseInt16_def)

subsection \<open>Numbers below \<open>2 ^ 53\<close>\<close>

text \<open>
  A natural number below \<open>2 ^ 53\<close> is a double; the double nearest to a larger natural
  number is at least \<open>2 ^ 53\<close>.
\<close>

lemma ilog_of_nat:
  assumes "0 < n"
  shows "ilog b (of_nat n) = int (floorlog b n) - 1"
proof -
  have "(1::rat) \<le> of_nat n" using assms by simp
  moreover have "nat \<lfloor>(of_nat n :: rat)\<rfloor> = n" by simp
  ultimately show ?thesis by (simp add: ilog_def)
qed

lemma round_half_even_of_int [simp]: "round_half_even (of_int k) = k"
  by (simp add: round_half_even_def)

lemma floor_le_round_half_even: "\<lfloor>r\<rfloor> \<le> round_half_even r"
  by (simp add: round_half_even_def Let_def)

lemma pow2_nonpos: "p \<le> 0 \<Longrightarrow> pow2 p = 1 / 2 ^ nat (- p)"
  by (cases "p = 0") (simp_all add: pow2_def)

lemma round_double_of_nat:
  assumes "0 < n" and "n < 2 ^ 53"
  shows "round_double (of_nat n) = Fin (of_nat n)"
proof -
  define L where "L = floorlog 2 n"
  have "floorlog 2 n \<noteq> 0" using assms(1) by (simp add: floorlog_eq_zero_iff)
  then have L1: "1 \<le> L" unfolding L_def by simp
  have L53: "L \<le> 53" unfolding L_def using assms(2) by (intro floorlog_leI) auto
  define j where "j = 53 - L"
  have p: "max (ilog 2 (of_nat n) - 52) (- 1074) = - int j"
    using L1 L53 by (simp add: ilog_of_nat[OF assms(1)] L_def[symmetric] j_def)
  have pw: "pow2 (- int j) = 1 / 2 ^ j"
    by (simp add: pow2_nonpos)
  have q: "(of_nat n :: rat) / (1 / 2 ^ j) = of_int (int (n * 2 ^ j))"
    by simp
  have r: "of_int (int (n * 2 ^ j)) * (1 / 2 ^ j) = (of_nat n :: rat)"
    by simp
  have small: "\<not> (2 ^ 1024 \<le> (of_nat n :: rat))"
  proof -
    have "(of_nat n :: rat) < of_nat (2 ^ 53)" using assms(2) by (simp only: of_nat_less_iff)
    also have "\<dots> \<le> 2 ^ 1024" by simp
    finally show ?thesis by simp
  qed
  have n0: "(of_nat n :: rat) \<noteq> 0" "0 < (of_nat n :: rat)" using assms(1) by simp_all
  show ?thesis
    unfolding round_double_def Let_def
    using n0 small
    by (simp only: abs_of_nat p pw q round_half_even_of_int r if_False if_True)
qed

lemma round_double_ge:
  assumes "2 ^ 53 \<le> n" and "round_double (of_nat n) = Fin q"
  shows "2 ^ 53 \<le> q"
proof -
  have npos: "0 < n" using assms(1) by (metis gr0I not_numeral_le_zero zero_less_power zero_less_numeral leD)
  define L where "L = floorlog 2 n"
  have "53 < L"
  proof -
    have "Suc 53 \<le> floorlog 2 n" using assms(1) by (intro floorlog_ge_SucI) auto
    then show ?thesis by (simp add: L_def)
  qed
  then obtain j where j: "L = 53 + j" "0 < j" by (metis less_imp_add_positive)
  have lower: "2 ^ (L - 1) \<le> n" using floorlog_bounds[of n 2] npos by (simp add: L_def)
  have p: "max (ilog 2 (of_nat n) - 52) (- 1074) = int j"
    using j by (simp add: ilog_of_nat[OF npos] L_def[symmetric])
  have pw: "pow2 (int j) = 2 ^ j" by (simp add: pow2_def)
  define m where "m = round_half_even (of_nat n / 2 ^ j)"
  have "(2::rat) ^ 52 * 2 ^ j \<le> of_nat n"
  proof -
    have "(2::nat) ^ 52 * 2 ^ j = 2 ^ (L - 1)" using j by (simp add: power_add)
    then have "(2::nat) ^ 52 * 2 ^ j \<le> n" using lower by simp
    then have "(of_nat ((2::nat) ^ 52 * 2 ^ j) :: rat) \<le> of_nat n" by (simp only: of_nat_le_iff)
    then show ?thesis by simp
  qed
  then have "(2::rat) ^ 52 \<le> of_nat n / 2 ^ j"
    by (simp add: pos_le_divide_eq)
  then have "(2::int) ^ 52 \<le> \<lfloor>(of_nat n :: rat) / 2 ^ j\<rfloor>"
    by (simp add: le_floor_iff)
  then have m52: "2 ^ 52 \<le> m"
    unfolding m_def using floor_le_round_half_even[of "of_nat n / 2 ^ j"] by linarith
  have r: "(2::rat) ^ 53 \<le> of_int m * 2 ^ j"
  proof -
    have "(2::rat) ^ 52 \<le> of_int m" using m52 by (metis of_int_le_iff of_int_numeral of_int_power)
    moreover have "(2::rat) \<le> 2 ^ j" using j(2) by (metis One_nat_def Suc_leI one_le_numeral power_increasing power_one_right)
    ultimately have "(2::rat) ^ 52 * 2 \<le> of_int m * 2 ^ j"
      by (intro mult_mono) auto
    then show ?thesis by simp
  qed
  have n0: "(of_nat n :: rat) \<noteq> 0" "0 < (of_nat n :: rat)" using npos by simp_all
  from assms(2) have "(if (2::rat) ^ 1024 \<le> of_int m * 2 ^ j then PosInf else Fin (of_int m * 2 ^ j)) = Fin q"
    unfolding round_double_def Let_def m_def
    using n0 by (simp only: abs_of_nat p pw if_False if_True)
  then have "q = of_int m * 2 ^ j" by (simp split: if_splits)
  with r show ?thesis by simp
qed

lemma digit_char_simps [simp]:
  "digit_char 0 = CHR ''0''" "digit_char 1 = CHR ''1''" "digit_char 2 = CHR ''2''"
  "digit_char 3 = CHR ''3''" "digit_char 4 = CHR ''4''" "digit_char 5 = CHR ''5''"
  "digit_char 6 = CHR ''6''" "digit_char 7 = CHR ''7''" "digit_char 8 = CHR ''8''"
  "digit_char 9 = CHR ''9''"
  by code_simp+

lemma dec_times_10:
  assumes "0 < s"
  shows "dec (s * 10) = dec s @ [CHR ''0'']"
proof -
  have "\<not> s * 10 < 10" using assms by simp
  then show ?thesis
    by (subst dec.simps) simp
qed

lemma dec_times_pow10:
  assumes "0 < s"
  shows "dec (s * 10 ^ j) = dec s @ replicate j (CHR ''0'')"
proof (induction j)
  case 0
  show ?case by simp
next
  case (Suc j)
  have "s * 10 ^ Suc j = (s * 10 ^ j) * 10" by simp
  then have "dec (s * 10 ^ Suc j) = dec ((s * 10 ^ j) * 10)" by (simp only:)
  also have "\<dots> = dec (s * 10 ^ j) @ [CHR ''0'']" using assms by (intro dec_times_10) simp
  also have "\<dots> = dec s @ replicate (Suc j) (CHR ''0'')"
    by (simp add: Suc.IH replicate_append_same)
  finally show ?case .
qed

lemma pow10_nat: "pow10 (int a - int b) = 10 ^ (a - b)" if "b \<le> a"
  using that by (simp add: pow10_def nat_diff_distrib')

lemma digits_cand_nat:
  assumes n: "0 < n" "n < 2 ^ 53" and k: "k \<le> L"
  shows "digits_cand (of_nat n) (int L) k =
           (if 10 ^ (L - k) dvd n then Some (n div 10 ^ (L - k)) else None)"
proof -
  define j where "j = L - k"
  define c where "c = n div 10 ^ j"
  have sc: "pow10 (int L - int k) = 10 ^ j" using k by (simp add: pow10_nat j_def)
  have fl: "nat \<lfloor>(of_nat n :: rat) / 10 ^ j\<rfloor> = c"
  proof -
    have "(of_nat n :: rat) / 10 ^ j = of_nat n / of_nat (10 ^ j)" by simp
    then show ?thesis unfolding c_def by (simp only: floor_divide_of_nat_eq nat_int)
  qed
  have lo_val: "(of_nat c :: rat) * 10 ^ j = of_nat (c * 10 ^ j)" by simp
  have hi_val: "(of_nat (c + 1) :: rat) * 10 ^ j = of_nat ((c + 1) * 10 ^ j)"
    by (simp add: algebra_simps)
  have cle: "c * 10 ^ j \<le> n" unfolding c_def by simp
  have clt: "n < (c + 1) * 10 ^ j"
    unfolding c_def using dividend_less_div_times[of "10 ^ j" n] by (simp add: mult.commute)
  have lo: "round_double (of_nat (c * 10 ^ j)) = Fin (of_nat n) \<longleftrightarrow> 10 ^ j dvd n"
  proof (cases "c * 10 ^ j = 0")
    case True
    then have "c = 0" by simp
    then have "n < 10 ^ j" using clt by simp
    then have "\<not> 10 ^ j dvd n" using n(1) by (auto dest: dvd_imp_le)
    moreover have "round_double (of_nat (c * 10 ^ j)) = Fin 0"
      using True by (simp add: round_double_def)
    ultimately show ?thesis using n(1) by simp
  next
    case False
    then have "round_double (of_nat (c * 10 ^ j)) = Fin (of_nat (c * 10 ^ j))"
      using cle n(2) by (intro round_double_of_nat) auto
    moreover have "c * 10 ^ j = n \<longleftrightarrow> 10 ^ j dvd n"
      unfolding c_def by (metis dvd_div_mult_self dvd_triv_right)
    ultimately show ?thesis by (simp only: jsnum.inject of_nat_eq_iff)
  qed
  have hi: "round_double (of_nat ((c + 1) * 10 ^ j)) \<noteq> Fin (of_nat n)"
  proof (cases "(c + 1) * 10 ^ j < 2 ^ 53")
    case True
    have "round_double (of_nat ((c + 1) * 10 ^ j)) = Fin (of_nat ((c + 1) * 10 ^ j))"
      using True by (intro round_double_of_nat) auto
    then show ?thesis using clt by (simp only: jsnum.inject of_nat_eq_iff)
  next
    case False
    show ?thesis
    proof
      assume "round_double (of_nat ((c + 1) * 10 ^ j)) = Fin (of_nat n)"
      then have "(2::rat) ^ 53 \<le> of_nat n"
        using False by (intro round_double_ge[of "(c + 1) * 10 ^ j"]) auto
      moreover have "(of_nat n :: rat) < of_nat (2 ^ 53)" using n(2) by (simp only: of_nat_less_iff)
      ultimately show False by simp
    qed
  qed
  show ?thesis
    unfolding digits_cand_def Let_def sc fl lo_val hi_val
    using lo hi by (simp add: j_def c_def)
qed

lemma shortest_nat:
  assumes n: "0 < n" "n < 2 ^ 53"
  shows "k \<le> L \<Longrightarrow> L < k + fuel \<Longrightarrow>
     \<exists>s k'. shortest (of_nat n) (int L) k fuel = Some (s, k') \<and> k' \<le> L \<and> s * 10 ^ (L - k') = n"
proof (induction fuel arbitrary: k)
  case 0
  then show ?case by simp
next
  case (Suc fuel)
  show ?case
  proof (cases "10 ^ (L - k) dvd n")
    case True
    then show ?thesis
      using Suc.prems(1) by (simp add: digits_cand_nat[OF n Suc.prems(1)])
  next
    case False
    then have "k \<noteq> L" by auto
    then have "k + 1 \<le> L" "L < (k + 1) + fuel" using Suc.prems by simp_all
    from Suc.IH[OF this] False show ?thesis
      by (simp add: digits_cand_nat[OF n Suc.prems(1)])
  qed
qed

lemma floorlog10_le_16:
  assumes "n < 2 ^ 53"
  shows "floorlog 10 n \<le> 16"
proof -
  have "n < 10 ^ 16" using assms by simp
  then show ?thesis by (intro floorlog_leI) auto
qed

lemma pos_toString_nat:
  assumes n: "0 < n" "n < 2 ^ 53"
  shows "pos_toString (of_nat n) = dec n"
proof -
  define L where "L = floorlog 10 n"
  have "floorlog 10 n \<noteq> 0" using n(1) by (simp add: floorlog_eq_zero_iff)
  then have L1: "1 \<le> L" by (simp add: L_def)
  have L16: "L \<le> 16" unfolding L_def by (rule floorlog10_le_16[OF n(2)])
  have nL: "ilog 10 (of_nat n) + 1 = int L" by (simp add: ilog_of_nat[OF n(1)] L_def)
  have upper: "n < 10 ^ L" using floorlog_bounds[of n 10] n(1) by (simp add: L_def)
  from shortest_nat[OF n, of 1 L 17] L1 L16
  obtain s k where sk: "shortest (of_nat n) (int L) 1 17 = Some (s, k)" "k \<le> L" "s * 10 ^ (L - k) = n"
    by auto
  have spos: "0 < s" using sk(3) n(1) by (cases s) auto
  have ne: "s \<noteq> 10 ^ k"
  proof
    assume "s = 10 ^ k"
    then have "n = 10 ^ L" using sk(2,3) by (simp add: power_add[symmetric])
    with upper show False by simp
  qed
  have "pos_toString (of_nat n) = format_number s k (int L)"
    unfolding pos_toString_def Let_def nL sk(1) using ne by simp
  also have "\<dots> = dec s @ replicate (L - k) (CHR ''0'')"
    using sk(2) L16 by (simp add: format_number_def nat_diff_distrib')
  also have "\<dots> = dec n" using dec_times_pow10[OF spos, of "L - k"] sk(3) by simp
  finally show ?thesis .
qed

lemma Number_toString_nat:
  assumes "n < 2 ^ 53"
  shows "Number_toString (round_double (of_nat n)) = dec n"
proof (cases "n = 0")
  case True
  then show ?thesis by (simp add: round_double_def dec.simps)
next
  case False
  then have "0 < n" by simp
  then show ?thesis
    using assms by (simp add: round_double_of_nat pos_toString_nat)
qed

lemma parseInt16_string_hex:
  assumes "regex_test HexQuantity h"
  shows "parseInt16_string h = round_double (of_nat (hex_value (drop 2 h)))"
proof -
  from assms obtain ds where h: "h = ''0x'' @ ds" and ds: "ds \<noteq> []" "list_all is_hex_char ds"
    by (cases h; cases "tl h") (auto simp: Suc_le_eq)
  have tw: "takeWhile is_hex_char ds = ds" using ds(2) by (simp add: list_all_iff)
  have sp: "\<not> is_js_space (CHR ''0'')" by (simp add: is_js_space_def)
  show ?thesis
    unfolding h using ds(1) sp
    by (simp add: parseInt16_string_def tw round_double_def)
qed

subsection \<open>Evaluation of the number functions on numerals\<close>

lemma floor_rat_numeral_div [simp]:
  "\<lfloor>(numeral a :: rat) / numeral b\<rfloor> = numeral a div numeral b"
  by (metis floor_divide_of_int_eq of_int_numeral)

lemma floor_rat_one_div [simp]:
  "\<lfloor>(1 :: rat) / numeral b\<rfloor> = 1 div numeral b"
  by (metis floor_divide_of_int_eq of_int_numeral of_int_1)

lemma ceiling_rat_numeral_div [simp]:
  "\<lceil>(numeral a :: rat) / numeral b\<rceil> = - (- numeral a div numeral b)"
  by (metis ceiling_def floor_divide_of_int_eq minus_divide_left of_int_minus of_int_numeral)

lemma ceiling_rat_one_div [simp]:
  "\<lceil>(1 :: rat) / numeral b\<rceil> = - (- 1 div numeral b)"
  by (metis ceiling_def floor_divide_of_int_eq minus_divide_left of_int_minus of_int_numeral of_int_1)

lemma shortest_numeral:
  "shortest x n k (numeral f) =
     (case digits_cand x n k of
        Some s \<Rightarrow> Some (s, k)
      | None \<Rightarrow> shortest x n (k + 1) (pred_numeral f))"
  by (simp add: numeral_eq_Suc)

lemma digit_char_Suc_0 [simp]: "digit_char (Suc 0) = CHR ''1''"
  using digit_char_simps(2) by simp

lemma replicate_numeral:
  "replicate (numeral k) x = x # replicate (pred_numeral k) x"
  by (simp add: numeral_eq_Suc)

lemmas number_eval =
  compute_floorlog[of _ "numeral a"] compute_floorlog[of _ 1] compute_floorlog[of _ 0]
  compute_floorlog[of _ "Suc 0"]
  ilog_def[of _ "numeral a"] ilog_def[of _ "numeral a / numeral b"] ilog_def[of _ 1]
  ilog_def[of _ "1 / numeral b"]
  round_half_even_def[of "numeral a"] round_half_even_def[of "numeral a / numeral b"]
  round_half_even_def[of 1] round_half_even_def[of "1 / numeral b"]
  round_double_def[of "numeral a"] round_double_def[of "numeral a / numeral b"]
  round_double_def[of 1] round_double_def[of "1 / numeral b"] round_double_def[of 0]
  digits_cand_def[of "numeral a"] digits_cand_def[of "numeral a / numeral b"]
  digits_cand_def[of 1] digits_cand_def[of "1 / numeral b"]
  pos_toString_def[of "numeral a"] pos_toString_def[of "numeral a / numeral b"]
  pos_toString_def[of 1] pos_toString_def[of "1 / numeral b"]
  toFixed_pos_def[of "numeral a"] toFixed_pos_def[of "numeral a / numeral b"]
  toFixed_pos_def[of 1] toFixed_pos_def[of "1 / numeral b"] toFixed_pos_def[of 0]
  dec.simps[of "numeral a"] dec.simps[of 0] dec.simps[of 1] dec.simps[of "Suc 0"]
  format_number_def[of "numeral a"] format_number_def[of 1] format_number_def[of "Suc 0"]
  pow2_def pow10_def Let_def shortest_numeral replicate_numeral
  for a b :: num


subsection \<open>Quantities printed in decimal\<close>

text \<open>
  Claim C6, as amended.  For each of the six tools that print a hexadecimal quantity in
  decimal, run on arguments that passed its schema: when the call of the node succeeds
  with a string \<open>h\<close> of the form \<^verbatim>\<open>0x\<close> and hexadecimal digits, the callback returns a
  result that is not flagged as an error and whose text ends with the decimal form of
  the Number that \<^verbatim>\<open>parseInt\<close> reads from \<open>h\<close>, followed by \<open>h\<close> in parentheses.  That
  Number is the double nearest to the value of \<open>h\<close>; when the value is below \<open>2 ^ 53\<close>
  the text printed for it is the decimal numeral of the value itself.
\<close>

theorem hex_quantity_reported_in_decimal:
  assumes "t \<in> set (registerTools u)"
    and "name t \<in> set hex_quantity_tools"
    and "parse_shape (inputSchema t) raw = Some a"
    and "\<And>url rq. net url rq = Resolves data"
    and "data \<noteq> JNull"
    and "\<not> truthy (get_prop data ''error'')"
    and "get_prop data ''result'' = Some (JStr h)"
    and "regex_test HexQuantity h"
  shows "(\<exists>pre. fst (callback t net a) =
           \<lparr>content = [\<lparr>type = ''text'',
               text' = Some (pre @ Number_toString (round_double (of_nat (hex_value (drop 2 h))))
                               @ '' ('' @ h @ '')'')\<rparr>],
            isError = False\<rparr>)
       \<and> (hex_value (drop 2 h) < 2 ^ 53 \<longrightarrow>
            Number_toString (round_double (of_nat (hex_value (drop 2 h))))
              = dec (hex_value (drop 2 h)))"
proof
  have ok: "fst (makeRpcCall net m ps uu) = Inr (Some (JStr h))" for m ps uu
    using makeRpcCall_result[OF assms(4) assms(5) assms(6)] assms(7) by simp
  have ts: "ToString (Some (JStr h)) = Inr h" by simp
  from parsed_arguments_print[OF assms(1) assms(3)]
  obtain shown where shown: "\<And>k. ToString (a k) = Inr (shown k)" by blast
  from hex_quantity_text[OF ok ts shown, where u = u] assms(1,2)
  show "\<exists>pre. fst (callback t net a) =
           \<lparr>content = [\<lparr>type = ''text'',
               text' = Some (pre @ Number_toString (round_double (of_nat (hex_value (drop 2 h))))
                               @ '' ('' @ h @ '')'')\<rparr>],
            isError = False\<rparr>"
    by (simp add: list_all_iff success_def parseInt16_string_hex[OF assms(8)])
  show "hex_value (drop 2 h) < 2 ^ 53 \<longrightarrow>
            Number_toString (round_double (of_nat (hex_value (drop 2 h))))
              = dec (hex_value (drop 2 h))"
    by (simp add: Number_toString_nat)
qed

theorem hex_quantity_reported_in_decimal_witness:
  "fst (eth_blockNumber_handler (\<lambda>url rq. Resolves (JObj [(''result'', JStr ''0x10'')]))
          DEFAULT_RPC_URL Map.empty) =
     \<lparr>content = [\<lparr>type = ''text'', text' = Some ''Current Block Number: 16 (0x10)''\<rparr>],
      isError = False\<rparr>"
proof -
  let ?data = "JObj [(''result'', JStr ''0x10'')]"
  have mem: "tool ''eth_blockNumber'' ''Retrieves the current block number of the blockchain'' []
          (\<lambda>net. eth_blockNumber_handler net DEFAULT_RPC_URL) \<in> set (registerTools None)"
    by (simp add: registerTools_def)
  have hv: "hex_value ''10'' = 16" by (simp add: hex_value_def hex_digit_def)
  have re: "regex_test HexQuantity ''0x10''" by (simp add: is_hex_char_def)
  have "Number_toString (round_double 16) = dec 16"
    using hex_quantity_reported_in_decimal[OF mem _ _ _ _ _ _ re,
      where net = "\<lambda>url rq. Resolves ?data" and data = ?data and a = Map.empty
        and raw = Map.empty]
    by (simp add: tool_def hex_quantity_tools_def hv)
  then have ns: "Number_toString (round_double 16) = ''16''"
    by (simp add: dec.simps)
  have "fst (eth_blockNumber_handler (\<lambda>url rq. Resolves ?data) DEFAULT_RPC_URL Map.empty) =
      \<lparr>content = [\<lparr>type = ''text'',
          text' = Some (''Current Block Number: '' @ Number_toString (round_double 16) @ '' (0x10)'')\<rparr>],
       isError = False\<rparr>"
    using parseInt16_string_hex[OF re]
    by (simp add: eth_blockNumber_handler_def makeRpcCall_def success_def hv parseInt16_def
        template_def lit_def)
  then show ?thesis by (simp add: ns)
qed

text \<open>
  Against the claim as it was stated: for the result \<^verbatim>\<open>0xde0b6b3a7640001\<close>, whose value
  is \<open>10 ^ 18 + 1\<close>, the text reports the decimal \<^verbatim>\<open>1000000000000000000\<close>, which is not
  the value of the result.
\<close>

theorem hex_quantity_rounded_counterexample:
  "call_tool (registerTools None)
      (\<lambda>url rq. Resolves (JObj [(''jsonrpc'', JStr ''2.0''), (''id'', JNum 1),
          (''result'', JStr ''0xde0b6b3a7640001'')]))
      ''eth_blockNumber'' Map.empty =
     (Ran \<lparr>content = [\<lparr>type = ''text'',
            text' = Some ''Current Block Number: 1000000000000000000 (0xde0b6b3a7640001)''\<rparr>],
          isError = False\<rparr>,
      [(DEFAULT_RPC_URL, \<lparr>jsonrpc = ''2.0'', id = 1, rpc_method = ''eth_blockNumber'',
          params = []\<rparr>)])
   \<and> hex_value ''de0b6b3a7640001'' = 1000000000000000001"
proof -
  have hv: "hex_value ''de0b6b3a7640001'' = 1000000000000000001"
    by (simp add: hex_value_def hex_digit_def)
  have re: "regex_test HexQuantity ''0xde0b6b3a7640001''" by (simp add: is_hex_char_def)
  have rd: "round_double 1000000000000000001 = Fin 1000000000000000000"
    by (simp add: number_eval)
  have p: "parseInt16_string ''0xde0b6b3a7640001'' = Fin 1000000000000000000"
    using parseInt16_string_hex[OF re] by (simp add: hv rd)
  have ts: "pos_toString 1000000000000000000 = ''1000000000000000000''"
    by (simp add: number_eval)
  show ?thesis
    by (simp add: call_tool_def registerTools_def tool_def eth_blockNumber_handler_def
        makeRpcCall_def success_def parseInt16_def p ts hv template_def lit_def)
qed

subsection \<open>The balance\<close>

text \<open>
  Claim C1, as amended.  For a well-formed address and a block parameter \<open>blk\<close> (the
  string given, or \<^verbatim>\<open>latest\<close> when none is given): when the call of the node succeeds
  with a string \<open>b\<close> of the form \<^verbatim>\<open>0x\<close> and hexadecimal digits, the balance tool returns
  the text of the address, the block, the Wei and the ETH.  The Wei printed is the
  decimal form of the Number that \<^verbatim>\<open>parseInt\<close> reads from \<open>b\<close>, the double nearest
  to the value of \<open>b\<close>; the ETH printed is that Number divided by \<open>10 ^ 18\<close>, as a
  double, with four digits after the point.  When the value of \<open>b\<close> is below \<open>2 ^ 53\<close>
  the Wei printed is the decimal numeral of the value itself, and the ETH is made from
  the value itself.
\<close>

theorem balance_reported_in_wei_and_eth:
  assumes "raw ''address'' = Some (JStr addr)"
    and "regex_test Address40 addr"
    and "raw ''blockParameter'' = None \<and> blk = ''latest'' \<or> raw ''blockParameter'' = Some (JStr blk)"
    and "\<And>url rq. net url rq = Resolves data"
    and "data \<noteq> JNull"
    and "\<not> truthy (get_prop data ''error'')"
    and "get_prop data ''result'' = Some (JStr b)"
    and "regex_test HexQuantity b"
  shows "fst (call_tool (registerTools u) net ''eth_getBalance'' raw) =
           Ran \<lparr>content = [\<lparr>type = ''text'',
               text' = Some (''Balance for '' @ addr @ '' at block '' @ blk @ '':'' @ newline
                  @ ''- Wei: '' @ Number_toString (round_double (of_nat (hex_value (drop 2 b))))
                  @ newline @ ''- ETH: ''
                  @ toFixed (js_div (round_double (of_nat (hex_value (drop 2 b)))) (10 ^ 18)) 4)\<rparr>],
             isError = False\<rparr>
       \<and> (hex_value (drop 2 b) < 2 ^ 53 \<longrightarrow>
            Number_toString (round_double (of_nat (hex_value (drop 2 b))))
              = dec (hex_value (drop 2 b))
          \<and> js_div (round_double (of_nat (hex_value (drop 2 b)))) (10 ^ 18)
              = round_double (of_nat (hex_value (drop 2 b)) / 10 ^ 18))"
proof
  let ?parsed = "[''blockParameter'' \<mapsto> JStr blk, ''address'' \<mapsto> JStr addr]"
  have parsed: "parse_shape (inputSchema (tool ''eth_getBalance''
         ''Retrieves the native token balance of an Ethereum address''
         [(''address'', Describe (Regex ZString Address40)
             ''The Ethereum address to check balance''),
          (''blockParameter'', Describe (Default (Optional ZString) (JStr ''latest''))
             (''Block parameter (default: '' @ [CHR 0x22] @ ''latest'' @ [CHR 0x22] @ '')''))]
         (\<lambda>net. eth_getBalance_handler net (the_url u)))) raw = Some ?parsed"
    using assms(1-3) by (auto simp add: tool_def simp del: regex_test.simps)
  have ok: "fst (makeRpcCall net m ps uu) = Inr (Some (JStr b))" for m ps uu
    using makeRpcCall_result[OF assms(4) assms(5) assms(6)] assms(7) by simp
  show "fst (call_tool (registerTools u) net ''eth_getBalance'' raw) =
           Ran \<lparr>content = [\<lparr>type = ''text'',
               text' = Some (''Balance for '' @ addr @ '' at block '' @ blk @ '':'' @ newline
                  @ ''- Wei: '' @ Number_toString (round_double (of_nat (hex_value (drop 2 b))))
                  @ newline @ ''- ETH: ''
                  @ toFixed (js_div (round_double (of_nat (hex_value (drop 2 b)))) (10 ^ 18)) 4)\<rparr>],
             isError = False\<rparr>"
    apply (subst call_tool_Ran[OF find_name_registerTools(1) parsed])
    apply (simp add: tool_def eth_getBalance_handler_def fst_case_called ok parseInt16_def
        parseInt16_string_hex[OF assms(8)] template_def lit_def success_def
        del: js_div.simps Number_toString.simps toFixed.simps)
    done
  show "hex_value (drop 2 b) < 2 ^ 53 \<longrightarrow>
            Number_toString (round_double (of_nat (hex_value (drop 2 b))))
              = dec (hex_value (drop 2 b))
          \<and> js_div (round_double (of_nat (hex_value (drop 2 b)))) (10 ^ 18)
              = round_double (of_nat (hex_value (drop 2 b)) / 10 ^ 18)"
  proof
    assume lt: "hex_value (drop 2 b) < 2 ^ 53"
    have rd: "round_double (of_nat (hex_value (drop 2 b))) = Fin (of_nat (hex_value (drop 2 b)))"
    proof (cases "hex_value (drop 2 b) = 0")
      case True
      then show ?thesis by (simp add: round_double_def)
    next
      case False
      then show ?thesis using lt by (intro round_double_of_nat) auto
    qed
    show "Number_toString (round_double (of_nat (hex_value (drop 2 b))))
              = dec (hex_value (drop 2 b))
          \<and> js_div (round_double (of_nat (hex_value (drop 2 b)))) (10 ^ 18)
              = round_double (of_nat (hex_value (drop 2 b)) / 10 ^ 18)"
      using Number_toString_nat[OF lt] by (simp add: rd)
  qed
qed

theorem balance_reported_in_wei_and_eth_witness:
  "fst (call_tool (registerTools None)
      (\<lambda>url rq. Resolves (JObj [(''jsonrpc'', JStr ''2.0''), (''id'', JNum 1),
          (''result'', JStr ''0x5af3107a4000'')]))
      ''eth_getBalance'' [''address'' \<mapsto> JStr ''0x00000000000000000000000000000000000000aB'']) =
     Ran \<lparr>content = [\<lparr>type = ''text'',
         text' = Some (''Balance for 0x00000000000000000000000000000000000000aB at block latest:''
            @ newline @ ''- Wei: 100000000000000'' @ newline @ ''- ETH: 0.0001'')\<rparr>],
       isError = False\<rparr>"
proof -
  let ?data = "JObj [(''jsonrpc'', JStr ''2.0''), (''id'', JNum 1),
          (''result'', JStr ''0x5af3107a4000'')]"
  have hv: "hex_value ''5af3107a4000'' = 100000000000000"
    by (simp add: hex_value_def hex_digit_def)
  have re: "regex_test HexQuantity ''0x5af3107a4000''" by (simp add: is_hex_char_def)
  have ad: "regex_test Address40 ''0x00000000000000000000000000000000000000aB''"
    by (simp add: is_hex_char_def)
  note inst = balance_reported_in_wei_and_eth[OF _ ad _ _ _ _ _ re,
      where raw = "[''address'' \<mapsto> JStr ''0x00000000000000000000000000000000000000aB'']"
        and blk = "''latest''" and net = "\<lambda>url rq. Resolves ?data" and data = ?data and u = None]
  have d: "dec 100000000000000 = ''100000000000000''"
    by (simp add: number_eval)
  have f: "toFixed (round_double (1 / 10000)) 4 = ''0.0001''"
    by (simp add: number_eval)
  from inst show ?thesis
    by (simp add: hv d f del: js_div.simps Number_toString.simps toFixed.simps regex_test.simps)
qed

text \<open>
  Against the claim as it was stated: for the balance \<^verbatim>\<open>0xde0b6b3a7640001\<close>, one ether
  and one wei, the Wei reported is \<^verbatim>\<open>1000000000000000000\<close>, not the value
  \<^verbatim>\<open>1000000000000000001\<close> of the result.
\<close>

theorem balance_wei_rounded_counterexample:
  "fst (call_tool (registerTools None)
      (\<lambda>url rq. Resolves (JObj [(''jsonrpc'', JStr ''2.0''), (''id'', JNum 1),
          (''result'', JStr ''0xde0b6b3a7640001'')]))
      ''eth_getBalance'' [''address'' \<mapsto> JStr ''0x00000000000000000000000000000000000000aB'']) =
     Ran \<lparr>content = [\<lparr>type = ''text'',
         text' = Some (''Balance for 0x00000000000000000000000000000000000000aB at block latest:''
            @ newline @ ''- Wei: 1000000000000000000'' @ newline @ ''- ETH: 1.0000'')\<rparr>],
       isError = False\<rparr>
   \<and> hex_value ''de0b6b3a7640001'' = 1000000000000000001"
proof -
  have hv: "hex_value ''de0b6b3a7640001'' = 1000000000000000001"
    by (simp add: hex_value_def hex_digit_def)
  have re: "regex_test HexQuantity ''0xde0b6b3a7640001''" by (simp add: is_hex_char_def)
  have rd: "round_double 1000000000000000001 = Fin 1000000000000000000"
    by (simp add: number_eval)
  have p: "parseInt16_string ''0xde0b6b3a7640001'' = Fin 1000000000000000000"
    using parseInt16_string_hex[OF re] by (simp add: hv rd)
  have ts: "Number_toString (Fin 1000000000000000000) = ''1000000000000000000''"
    by (simp add: number_eval)
  have tf: "toFixed (js_div (Fin 1000000000000000000) 1000000000000000000) 4 = ''1.0000''"
    by (simp add: number_eval)
  show ?thesis
    by (simp add: call_tool_def registerTools_def tool_def eth_getBalance_handler_def
        makeRpcCall_def success_def parseInt16_def p ts tf hv template_def lit_def is_hex_char_def
        del: js_div.simps Number_toString.simps toFixed.simps)
qed

end
